theory Spec2Isabelle
  imports Main "HOL-Library.Word"
begin

unbundle bit_operations_syntax

section \<open>Common types\<close>

type_synonym byte = "8 word"
type_synonym bytes = "byte list"
type_synonym uint64 = "64 word"

text \<open>
  Errors are values.  The sentinels are the package-level error variables the sources
  compare against; \<open>New\<close> stands for an error made by \<^verbatim>\<open>errors.New\<close> or
  \<^verbatim>\<open>errors.Errorf\<close> (its message is the format string, with the arguments not
  filled in), and
  \<open>Wrap\<close> for \<^verbatim>\<open>errors.Wrap\<close> and \<^verbatim>\<open>errors.Wrapf\<close> of
  \<^verbatim>\<open>github.com/pkg/errors\<close>.  A Go \<^verbatim>\<open>error\<close> that may be nil is an
  \<open>error option\<close>.
\<close>

datatype error =
    ErrInsufficientEndorsements
  | ErrInvalidTipHeight
  | ErrIO
  | ErrNotExist
  | New string
  | Wrap error string

text \<open>\<^verbatim>\<open>errors.Cause\<close>: strip every wrapping; the cause of nil is nil.\<close>

fun Cause_of :: "error \<Rightarrow> error" where
  "Cause_of (Wrap e m) = Cause_of e"
| "Cause_of e = e"

definition Cause :: "error option \<Rightarrow> error option" where
  "Cause err = map_option Cause_of err"

text \<open>A call either returns or panics (\<^verbatim>\<open>Logger.Panic\<close>, a nil dereference).\<close>

datatype 'a outcome = Return 'a | Panic string

section \<open>blockchain/block/bloomfilter.go: the 256-bit, 8-hash bloom filter\<close>

text \<open>
  \<^verbatim>\<open>bloomFilter [32]byte\<close>: a list of bytes; the array type fixes its length at 32,
  which the theorems assume as \<open>length f = 32\<close>.
\<close>

type_synonym bloomFilter = "byte list"

definition NewBloomFilter :: bloomFilter where
  "NewBloomFilter = replicate 32 0"

text \<open>
  \<^verbatim>\<open>mask := 1 << (pos & 7); f[pos>>3] |= byte(mask)\<close>.  The index \<open>pos >> 3\<close> is at
  most 31, so the write is always inside the array.
\<close>

definition setBit :: "bloomFilter \<Rightarrow> byte \<Rightarrow> bloomFilter" where
  "setBit f pos =
     (let mask = (push_bit (unat (pos AND 7)) 1 :: byte);
          i = unat (drop_bit 3 pos)
      in f[i := (f ! i) OR mask])"

definition chkBit :: "bloomFilter \<Rightarrow> byte \<Rightarrow> bool" where
  "chkBit f pos =
     (let mask = (push_bit (unat (pos AND 7)) 1 :: byte)
      in (f ! unat (drop_bit 3 pos)) AND mask \<noteq> 0)"

text \<open>
  \<^verbatim>\<open>hash.Hash256b\<close> lives in an external package; it is the parameter \<open>H\<close>, from the
  key's bytes to the bytes of the digest.  \<open>Add\<close> runs \<open>setBit\<close> on \<open>h[0] .. h[7]\<close>;
  \<open>Exist\<close> returns false at the first of these bits that is clear.
\<close>

definition bloomFilter_Add :: "(bytes \<Rightarrow> bytes) \<Rightarrow> bloomFilter \<Rightarrow> bytes \<Rightarrow> bloomFilter" where
  "bloomFilter_Add H f key = (let h = H key in fold (\<lambda>i g. setBit g (h ! i)) [0..<8] f)"

fun Exist_from :: "bloomFilter \<Rightarrow> bytes \<Rightarrow> nat list \<Rightarrow> bool" where
  "Exist_from f h [] = True"
| "Exist_from f h (i # is) = (if \<not> chkBit f (h ! i) then False else Exist_from f h is)"

definition bloomFilter_Exist :: "(bytes \<Rightarrow> bytes) \<Rightarrow> bloomFilter \<Rightarrow> bytes \<Rightarrow> bool" where
  "bloomFilter_Exist H f key = (let h = H key in Exist_from f h [0..<8])"

text \<open>A sequence of further \<open>Add\<close> calls, in order.\<close>

definition Add_all :: "(bytes \<Rightarrow> bytes) \<Rightarrow> bloomFilter \<Rightarrow> bytes list \<Rightarrow> bloomFilter" where
  "Add_all H f keys = fold (\<lambda>k g. bloomFilter_Add H g k) keys f"

text \<open>A stand-in digest and a key, to run the filter on explicit inputs.\<close>

definition test_hash :: "bytes \<Rightarrow> bytes" where
  "test_hash key = map (\<lambda>b. b * 37 + 11) key"

definition test_key :: bytes where
  "test_key = map of_nat [0..<32]"

section \<open>db: the counting index (\<^verbatim>\<open>countingIndex\<close>)\<close>

text \<open>
  The bolt database is a third-party library.  Its operations are parameters: \<open>db_Update\<close>
  runs a transaction body and returns the body's or the commit's error together with the
  database afterwards; \<open>tx_Bucket\<close> says whether the bucket exists (a non-nil result of
  \<^verbatim>\<open>tx.Bucket\<close>); \<open>bucket_Put\<close> writes a key of a bucket.  \<open>Uint64ToBytesBigEndian\<close>
  (package byteutil) and the \<^verbatim>\<open>Error()\<close> method of an error are parameters as well.
  The index is open: \<^verbatim>\<open>Close\<close>, which sets \<open>db\<close> to nil, leaves an object that is not to be
  used any more.
\<close>

record ('db, 'tx) bolt =
  db_Update :: "'db \<Rightarrow> ('tx \<Rightarrow> error option \<times> 'tx) \<Rightarrow> error option \<times> 'db"
  tx_Bucket :: "'tx \<Rightarrow> bytes \<Rightarrow> bool"
  bucket_Put :: "'tx \<Rightarrow> bytes \<Rightarrow> bytes \<Rightarrow> bytes \<Rightarrow> error option \<times> 'tx"
  Uint64ToBytesBigEndian :: "uint64 \<Rightarrow> bytes"
  err_Error :: "error \<Rightarrow> string"

record 'db countingIndex =
  ci_db :: 'db
  ci_numRetries :: byte
  ci_bucket :: bytes
  ci_size :: uint64

definition countingIndex_Size :: "'db countingIndex \<Rightarrow> uint64" where
  "countingIndex_Size c = ci_size c"

text \<open>The closure handed to \<^verbatim>\<open>db.Update\<close> in \<^verbatim>\<open>Add\<close>.\<close>

definition Add_tx ::
  "('db, 'tx) bolt \<Rightarrow> 'db countingIndex \<Rightarrow> bytes \<Rightarrow> 'tx \<Rightarrow> error option \<times> 'tx" where
  "Add_tx B c v tx =
     (if \<not> tx_Bucket B tx (ci_bucket c)
      then (Some (Wrap ErrNotExist ''bucket = %x doesn't exist''), tx)
      else
        let last = Uint64ToBytesBigEndian B (ci_size c + 1) in
        (case bucket_Put B tx (ci_bucket c) last v of
           (Some err, tx') \<Rightarrow> (Some err, tx')
         | (None, tx') \<Rightarrow> bucket_Put B tx' (ci_bucket c) (Uint64ToBytesBigEndian B 0) last))"

text \<open>
  The retry loop \<^verbatim>\<open>for i := uint8(0); i < c.numRetries; i++\<close>: \<open>err\<close> is the loop's
  variable (the error of the latest attempt), \<open>d\<close> the database.  It stops at the first
  attempt that succeeds.
\<close>

function Add_attempts ::
  "('db, 'tx) bolt \<Rightarrow> 'db countingIndex \<Rightarrow> bytes \<Rightarrow> byte \<Rightarrow> error option \<Rightarrow> 'db
     \<Rightarrow> error option \<times> 'db" where
  "Add_attempts B c v i err d =
     (if i < ci_numRetries c then
        (case db_Update B d (Add_tx B c v) of
           (None, d') \<Rightarrow> (None, d')
         | (Some e, d') \<Rightarrow> Add_attempts B c v (i + 1) (Some e) d')
      else (err, d))"
  by pat_completeness auto
termination
proof (relation "measure (\<lambda>(B, c, v, i, err, d). unat (ci_numRetries c) - unat i)")
  show "wf (measure (\<lambda>(B, c, v, i, err, d). unat (ci_numRetries c) - unat i))"
    by simp
next
  fix B :: "('db, 'tx) bolt" and c :: "'db countingIndex" and v :: bytes and i :: byte
    and err :: "error option" and d :: 'db and x :: "error option \<times> 'db"
    and x1 :: "error option" and x2 :: 'db and e :: error
  assume lt: "i < ci_numRetries c"
  have below: "unat i < unat (ci_numRetries c)"
    using lt by (simp add: word_less_nat_alt)
  have "unat (ci_numRetries c) < 256"
    using unsigned_less[of "ci_numRetries c", where 'a=nat] by simp
  hence "unat (i + 1) = unat i + 1"
    using below by (simp add: unat_word_ariths)
  thus "((B, c, v, i + 1, Some e, x2), (B, c, v, i, err, d))
      \<in> measure (\<lambda>(B, c, v, i, err, d). unat (ci_numRetries c) - unat i)"
    using below by simp
qed

text \<open>
  \<^verbatim>\<open>Add\<close>: after the loop the error, if any, is wrapped into the local variable
  (\<open>err'\<close>), which is then dropped: the function increments \<open>size\<close> and returns nil.
  The result is the returned error and the index afterwards.
\<close>

definition countingIndex_Add ::
  "('db, 'tx) bolt \<Rightarrow> 'db countingIndex \<Rightarrow> bytes \<Rightarrow> error option \<times> 'db countingIndex" where
  "countingIndex_Add B c v =
     (case Add_attempts B c v 0 None (ci_db c) of
        (err, d') \<Rightarrow>
          let err' = (case err of None \<Rightarrow> None
                      | Some e \<Rightarrow> Some (Wrap ErrIO (err_Error B e)))
          in (None, c\<lparr>ci_db := d', ci_size := ci_size c + 1\<rparr>))"

text \<open>
  A database on which every update fails, and one that stores nothing but succeeds: two
  instances of the parameters, to run \<open>Add\<close> on explicit inputs.
\<close>

definition failing_bolt :: "(nat, unit) bolt" where
  "failing_bolt =
     \<lparr>db_Update = (\<lambda>d body. (Some (New ''disk failure''), Suc d)),
      tx_Bucket = (\<lambda>tx name. True),
      bucket_Put = (\<lambda>tx name k v. (None, tx)),
      Uint64ToBytesBigEndian = (\<lambda>w. rev (map (\<lambda>n. ucast (drop_bit (8 * n) w)) [0..<8])),
      err_Error = (\<lambda>e. ''error'')\<rparr>"

definition working_bolt :: "(nat, unit) bolt" where
  "working_bolt = failing_bolt\<lparr>db_Update := (\<lambda>d body. (fst (body ()), Suc d))\<rparr>"

definition test_index :: "nat countingIndex" where
  "test_index = \<lparr>ci_db = 0, ci_numRetries = 3, ci_bucket = [1, 2], ci_size = 41\<rparr>"

section \<open>consensus/scheme/rolldpos/rolldposctx.go: data\<close>

text \<open>
  \<^verbatim>\<open>time.Time\<close> is an instant in nanoseconds; \<^verbatim>\<open>time.Duration\<close> is an
  \<^verbatim>\<open>int64\<close> count of nanoseconds, so sums of durations wrap around and comparisons
  are signed.  \<^verbatim>\<open>t.Add(d)\<close> is \<open>Time_Add t d\<close>.
\<close>

type_synonym Time = int
type_synonym Duration = "64 word"

definition Time_Add :: "Time \<Rightarrow> Duration \<Rightarrow> Time" where
  "Time_Add t d = t + sint d"

datatype ConsensusVoteTopic = PROPOSAL | LOCK | COMMIT

record ConsensusVote =
  vote_blockHash :: bytes
  vote_topic :: ConsensusVoteTopic

definition NewConsensusVote :: "bytes \<Rightarrow> ConsensusVoteTopic \<Rightarrow> ConsensusVote" where
  "NewConsensusVote blkHash topic = \<lparr>vote_blockHash = blkHash, vote_topic = topic\<rparr>"

text \<open>
  A block (\<open>'b\<close>) and an endorsement (\<open>'e\<close>) are values of other packages.  The block of a
  proposal is taken to be a non-nil pointer.
\<close>

record ('b, 'e) blockProposal =
  bp_block :: 'b
  bp_proofOfLock :: "'e list"

definition newBlockProposal :: "'b \<Rightarrow> 'e list \<Rightarrow> ('b, 'e) blockProposal" where
  "newBlockProposal blk pol = \<lparr>bp_block = blk, bp_proofOfLock = pol\<rparr>"

text \<open>The document of an endorsed message: the two implementations of the interface.\<close>

datatype ('b, 'e) Document =
    DocProposal "('b, 'e) blockProposal"
  | DocVote ConsensusVote

record ('b, 'e) EndorsedConsensusMessage =
  ecm_height :: uint64
  ecm_message :: "('b, 'e) Document"
  ecm_endorsement :: 'e

definition NewEndorsedConsensusMessage ::
  "uint64 \<Rightarrow> ('b, 'e) Document \<Rightarrow> 'e \<Rightarrow> ('b, 'e) EndorsedConsensusMessage" where
  "NewEndorsedConsensusMessage h doc en =
     \<lparr>ecm_height = h, ecm_message = doc, ecm_endorsement = en\<rparr>"

text \<open>
  An argument of type \<^verbatim>\<open>interface{}\<close>: nil, a pointer to an endorsed consensus message,
  or a value of any other dynamic type.
\<close>

datatype ('b, 'e) Msg =
    MsgNil
  | MsgECM "('b, 'e) EndorsedConsensusMessage"
  | MsgOther

text \<open>
  A result of type \<^verbatim>\<open>interface{}\<close>.  \<^verbatim>\<open>return nil\<close> gives the nil interface.  A
  helper's result of type \<^verbatim>\<open>*EndorsedConsensusMessage\<close> (an option: \<open>None\<close> is the nil
  pointer) that is returned as \<^verbatim>\<open>interface{}\<close> gives an interface that holds the
  pointer: for a nil pointer this is a non-nil interface holding nil, which differs from
  the nil interface (the comment in \<^verbatim>\<open>PreCommitEndorsement\<close> is about this).
\<close>

datatype 'm iface = IfaceNil | IfaceNilPtr | IfacePtr 'm

definition to_iface :: "'m option \<Rightarrow> 'm iface" where
  "to_iface p = (case p of None \<Rightarrow> IfaceNilPtr | Some m \<Rightarrow> IfacePtr m)"

definition ret_iface :: "'m option \<times> error option \<Rightarrow> 'm iface \<times> error option" where
  "ret_iface r = (to_iface (fst r), snd r)"

record config_FSM =
  AcceptBlockTTL :: Duration
  AcceptProposalEndorsementTTL :: Duration
  AcceptLockEndorsementTTL :: Duration
  CommitTTL :: Duration
  UnmatchedEventTTL :: Duration

record config_RollDPoS =
  FSM :: config_FSM

text \<open>
  The state of \<^verbatim>\<open>rollDPoSCtx\<close>.  The chain (\<open>'c\<close>), the action pool (\<open>'p\<close>) and the
  round context (\<open>'r\<close>) are objects the context points to; a method that changes one of
  them returns the context with the new value.  The round calculator and the broadcast
  handler are fixed at construction and have no state of their own: they are among the
  parameters below.  The mutex, the loggers and the metrics are left out.
\<close>

record ('r, 'c, 'p, 'k) rollDPoSCtx =
  ctx_cfg :: config_RollDPoS
  ctx_chain :: 'c
  ctx_actPool :: 'p
  ctx_encodedAddr :: string
  ctx_priKey :: 'k
  ctx_round :: 'r
  ctx_active :: bool

text \<open>
  The code these sources call but do not contain, as parameters: the round calculator
  (\<open>rc_\<close>, which reads the chain), the round context (\<open>r_\<close>), the chain (\<open>ch_\<close>), the action
  pool (\<open>ap_\<close>), the block (\<open>b_\<close>), the endorsement package (\<open>en_\<close>) and the broadcast
  handler.  A method with a pointer receiver that may change its object returns the new
  object next to its result.  \<open>en_EndorserAddress\<close> is
  \<^verbatim>\<open>address.FromBytes(en.Endorser().Hash())\<close> followed by \<^verbatim>\<open>String()\<close>;
  \<open>b_ProposerAddress\<close> is \<^verbatim>\<open>proposal.ProposerAddress()\<close>; \<open>b_WorkingSet_nil\<close> is
  \<^verbatim>\<open>block.WorkingSet == nil\<close>.  \<open>ch_BlockHeaderByHeight\<close> returns a pointer to a header,
  of which only nil or not matters here, and an error.
\<close>

record ('r, 'c, 'p, 'b, 'e, 'k, 'a, 'pb) deps =
  rc_NewRound :: "'c \<Rightarrow> uint64 \<Rightarrow> Time \<Rightarrow> error + 'r"
  rc_NewRoundWithToleration :: "'c \<Rightarrow> uint64 \<Rightarrow> Time \<Rightarrow> error + 'r"
  rc_UpdateRound :: "'c \<Rightarrow> 'r \<Rightarrow> uint64 \<Rightarrow> Time \<Rightarrow> error + 'r"
  rc_Proposer :: "'c \<Rightarrow> uint64 \<Rightarrow> Time \<Rightarrow> string"
  rc_IsDelegate :: "'c \<Rightarrow> string \<Rightarrow> uint64 \<Rightarrow> bool"
  r_AddBlock :: "'r \<Rightarrow> 'b \<Rightarrow> error option \<times> 'r"
  r_AddVoteEndorsement :: "'r \<Rightarrow> ConsensusVote \<Rightarrow> 'e \<Rightarrow> error option \<times> 'r"
  r_EndorsedByMajority :: "'r \<Rightarrow> bytes \<Rightarrow> ConsensusVoteTopic list \<Rightarrow> bool"
  r_Endorsements :: "'r \<Rightarrow> bytes \<Rightarrow> ConsensusVoteTopic list \<Rightarrow> 'e list"
  r_ReadyToCommit :: "'r \<Rightarrow> string \<Rightarrow> ('b, 'e) EndorsedConsensusMessage option"
  r_IsDelegate :: "'r \<Rightarrow> string \<Rightarrow> bool"
  r_Proposer :: "'r \<Rightarrow> string"
  r_IsLocked :: "'r \<Rightarrow> bool"
  r_IsUnlocked :: "'r \<Rightarrow> bool"
  r_HashOfBlockInLock :: "'r \<Rightarrow> bytes"
  r_Block :: "'r \<Rightarrow> bytes \<Rightarrow> 'b option"
  r_ProofOfLock :: "'r \<Rightarrow> 'e list"
  r_StartTime :: "'r \<Rightarrow> Time"
  r_Height :: "'r \<Rightarrow> uint64"
  ch_TipHeight :: "'c \<Rightarrow> uint64"
  ch_MintNewBlock :: "'c \<Rightarrow> 'a \<Rightarrow> Time \<Rightarrow> error + 'b"
  ch_ValidateBlock :: "'c \<Rightarrow> 'b \<Rightarrow> error option"
  ch_CommitBlock :: "'c \<Rightarrow> 'b \<Rightarrow> error option \<times> 'c"
  ch_BlockHeaderByHeight :: "'c \<Rightarrow> uint64 \<Rightarrow> unit option \<times> error option"
  ap_PendingActionMap :: "'p \<Rightarrow> 'a"
  ap_Reset :: "'p \<Rightarrow> 'p"
  b_Height :: "'b \<Rightarrow> uint64"
  b_Timestamp :: "'b \<Rightarrow> Time"
  b_HashBlock :: "'b \<Rightarrow> bytes"
  b_VerifySignature :: "'b \<Rightarrow> bool"
  b_WorkingSet_nil :: "'b \<Rightarrow> bool"
  b_ProposerAddress :: "'b \<Rightarrow> string"
  b_Finalize :: "'b \<Rightarrow> 'e list \<Rightarrow> Time \<Rightarrow> error option \<times> 'b"
  b_ConvertToBlockPb :: "'b \<Rightarrow> 'pb option"
  en_Endorse :: "'k \<Rightarrow> ('b, 'e) Document \<Rightarrow> Time \<Rightarrow> error + 'e"
  en_EndorserAddress :: "'e \<Rightarrow> error + string"
  en_Timestamp :: "'e \<Rightarrow> Time"
  broadcastHandler :: "'pb \<Rightarrow> error option"

text \<open>
  The calls \<^verbatim>\<open>Commit\<close> makes to the chain, the action pool and the network, in order,
  each with what it returned.
\<close>

datatype ('b, 'pb) event =
    EvCommitBlock 'b "error option"
  | EvActPoolReset
  | EvBroadcast 'pb "error option"

section \<open>Construction\<close>

text \<open>
  \<^verbatim>\<open>newRollDPoSCtx\<close>.  The calculator is built first and asked for the round at height 0
  and the clock's time \<open>now\<close>; a failure there panics.  Then the sum of the four TTLs is
  compared with the block interval, in \<^verbatim>\<open>int64\<close> arithmetic.  The arguments that only
  configure the calculator (tolerated overtime, rotation mode, protocol, candidates
  function) and the broadcast handler are part of the parameters \<open>D\<close>.
\<close>

definition ttl_sum :: "config_RollDPoS \<Rightarrow> Duration" where
  "ttl_sum cfg =
     AcceptBlockTTL (FSM cfg) + AcceptProposalEndorsementTTL (FSM cfg)
       + AcceptLockEndorsementTTL (FSM cfg) + CommitTTL (FSM cfg)"

definition ttl_panic :: string where
  "ttl_panic = ''invalid ttl config, the sum of ttls should be equal to block interval''"

definition round_panic :: string where
  "round_panic = ''failed to generate round context''"

definition newRollDPoSCtx ::
  "('r, 'c, 'p, 'b, 'e, 'k, 'a, 'pb) deps \<Rightarrow> config_RollDPoS \<Rightarrow> bool \<Rightarrow> Duration \<Rightarrow> 'c \<Rightarrow> 'p
     \<Rightarrow> string \<Rightarrow> 'k \<Rightarrow> Time \<Rightarrow> ('r, 'c, 'p, 'k) rollDPoSCtx outcome" where
  "newRollDPoSCtx D cfg active blockInterval chain actPool encodedAddr priKey now =
     (case rc_NewRoundWithToleration D chain 0 now of
        Inl err \<Rightarrow> Panic round_panic
      | Inr round \<Rightarrow>
          if blockInterval <s ttl_sum cfg
          then Panic ttl_panic
          else Return \<lparr>ctx_cfg = cfg, ctx_chain = chain, ctx_actPool = actPool,
                       ctx_encodedAddr = encodedAddr, ctx_priKey = priKey,
                       ctx_round = round, ctx_active = active\<rparr>)"

section \<open>Checking a block proposal from the network\<close>

text \<open>
  The loop over \<^verbatim>\<open>proposal.proofOfLock\<close>: each endorsement is added as a PROPOSAL vote
  for the block; if that fails it is added as a COMMIT vote, and the error of this second
  attempt ends the loop.  The round context is the one both attempts work on.
\<close>

fun addProofOfLock ::
  "('r, 'c, 'p, 'b, 'e, 'k, 'a, 'pb) deps \<Rightarrow> bytes \<Rightarrow> 'r \<Rightarrow> 'e list \<Rightarrow> error + 'r" where
  "addProofOfLock D blkHash round [] = Inr round"
| "addProofOfLock D blkHash round (e # es) =
     (case r_AddVoteEndorsement D round (NewConsensusVote blkHash PROPOSAL) e of
        (None, round1) \<Rightarrow> addProofOfLock D blkHash round1 es
      | (Some err1, round1) \<Rightarrow>
          (case r_AddVoteEndorsement D round1 (NewConsensusVote blkHash COMMIT) e of
             (Some err, round2) \<Rightarrow> Inl err
           | (None, round2) \<Rightarrow> addProofOfLock D blkHash round2 es))"

definition CheckBlockProposer ::
  "('r, 'c, 'p, 'b, 'e, 'k, 'a, 'pb) deps \<Rightarrow> ('r, 'c, 'p, 'k) rollDPoSCtx \<Rightarrow> uint64
     \<Rightarrow> ('b, 'e) blockProposal \<Rightarrow> 'e \<Rightarrow> error option" where
  "CheckBlockProposer D ctx height proposal en =
     (if height \<noteq> b_Height D (bp_block proposal)
      then Some (New ''block height %d different from expected %d'')
      else
        case en_EndorserAddress D en of
          Inl err \<Rightarrow> Some err
        | Inr endorserAddr \<Rightarrow>
            if rc_Proposer D (ctx_chain ctx) height (en_Timestamp D en) \<noteq> endorserAddr
            then Some (New ''%s is not proposer of the corresponding round, %s expected'')
            else
              let proposerAddr = b_ProposerAddress D (bp_block proposal) in
              if rc_Proposer D (ctx_chain ctx) height (b_Timestamp D (bp_block proposal))
                   \<noteq> proposerAddr
              then Some (New ''%s is not proposer of the corresponding round'')
              else if \<not> b_VerifySignature D (bp_block proposal)
              then Some (New ''invalid block signature'')
              else if proposerAddr \<noteq> endorserAddr then
                (case rc_NewRound D (ctx_chain ctx) height (en_Timestamp D en) of
                   Inl err \<Rightarrow> Some err
                 | Inr round \<Rightarrow>
                     (case r_AddBlock D round (bp_block proposal) of
                        (Some err, round1) \<Rightarrow> Some err
                      | (None, round1) \<Rightarrow>
                          let blkHash = b_HashBlock D (bp_block proposal) in
                          (case addProofOfLock D blkHash round1 (bp_proofOfLock proposal) of
                             Inl err \<Rightarrow> Some err
                           | Inr round2 \<Rightarrow>
                               if \<not> r_EndorsedByMajority D round2 blkHash [PROPOSAL, COMMIT]
                               then Some (Wrap ErrInsufficientEndorsements
                                            ''failed to verify proof of lock'')
                               else None)))
              else None)"

text \<open>
  The same loop in the words of the specification: apply an endorsement as PROPOSAL; if
  that fails, retry as COMMIT; the retry's error is the result.
\<close>

definition admit_spec ::
  "('r, 'c, 'p, 'b, 'e, 'k, 'a, 'pb) deps \<Rightarrow> bytes \<Rightarrow> 'r \<Rightarrow> 'e \<Rightarrow> error + 'r" where
  "admit_spec D blkHash round e =
     (case r_AddVoteEndorsement D round (NewConsensusVote blkHash PROPOSAL) e of
        (None, round1) \<Rightarrow> Inr round1
      | (Some err1, round1) \<Rightarrow>
          (case r_AddVoteEndorsement D round1 (NewConsensusVote blkHash COMMIT) e of
             (None, round2) \<Rightarrow> Inr round2
           | (Some err, round2) \<Rightarrow> Inl err))"

fun admit_all_spec ::
  "('r, 'c, 'p, 'b, 'e, 'k, 'a, 'pb) deps \<Rightarrow> bytes \<Rightarrow> 'r \<Rightarrow> 'e list \<Rightarrow> error + 'r" where
  "admit_all_spec D blkHash round [] = Inr round"
| "admit_all_spec D blkHash round (e # es) =
     (case admit_spec D blkHash round e of
        Inl err \<Rightarrow> Inl err
      | Inr round' \<Rightarrow> admit_all_spec D blkHash round' es)"

section \<open>The actions of the consensus state machine\<close>

definition Prepare ::
  "('r, 'c, 'p, 'b, 'e, 'k, 'a, 'pb) deps \<Rightarrow> ('r, 'c, 'p, 'k) rollDPoSCtx \<Rightarrow> Time
     \<Rightarrow> error option \<times> ('r, 'c, 'p, 'k) rollDPoSCtx" where
  "Prepare D ctx now =
     (let height = ch_TipHeight D (ctx_chain ctx) + 1 in
      case rc_UpdateRound D (ctx_chain ctx) (ctx_round ctx) height now of
        Inl err \<Rightarrow> (Some err, ctx)
      | Inr newRound \<Rightarrow> (None, ctx\<lparr>ctx_round := newRound\<rparr>))"


definition Activate ::
  "('r, 'c, 'p, 'k) rollDPoSCtx \<Rightarrow> bool \<Rightarrow> ('r, 'c, 'p, 'k) rollDPoSCtx" where
  "Activate ctx active = ctx\<lparr>ctx_active := active\<rparr>"

definition Active :: "('r, 'c, 'p, 'k) rollDPoSCtx \<Rightarrow> bool" where
  "Active ctx = ctx_active ctx"

text \<open>
  \<^verbatim>\<open>endorseBlockProposal\<close>, \<^verbatim>\<open>newEndorsement\<close>: sign a document with the node's key; the
  signing error, if any, is returned.  These helpers return a pointer and an error: a pair
  of options.
\<close>

definition endorseBlockProposal ::
  "('r, 'c, 'p, 'b, 'e, 'k, 'a, 'pb) deps \<Rightarrow> ('r, 'c, 'p, 'k) rollDPoSCtx
     \<Rightarrow> ('b, 'e) blockProposal
     \<Rightarrow> ('b, 'e) EndorsedConsensusMessage option \<times> error option" where
  "endorseBlockProposal D ctx proposal =
     (case en_Endorse D (ctx_priKey ctx) (DocProposal proposal) (r_StartTime D (ctx_round ctx)) of
        Inl err \<Rightarrow> (None, Some err)
      | Inr en \<Rightarrow>
          (Some (NewEndorsedConsensusMessage (b_Height D (bp_block proposal))
                   (DocProposal proposal) en), None))"

definition newEndorsement ::
  "('r, 'c, 'p, 'b, 'e, 'k, 'a, 'pb) deps \<Rightarrow> ('r, 'c, 'p, 'k) rollDPoSCtx \<Rightarrow> bytes
     \<Rightarrow> ConsensusVoteTopic \<Rightarrow> Time
     \<Rightarrow> ('b, 'e) EndorsedConsensusMessage option \<times> error option" where
  "newEndorsement D ctx blkHash topic timestamp =
     (let vote = NewConsensusVote blkHash topic in
      case en_Endorse D (ctx_priKey ctx) (DocVote vote) timestamp of
        Inl err \<Rightarrow> (None, Some err)
      | Inr en \<Rightarrow>
          (Some (NewEndorsedConsensusMessage (r_Height D (ctx_round ctx)) (DocVote vote) en),
           None))"

definition mintNewBlock ::
  "('r, 'c, 'p, 'b, 'e, 'k, 'a, 'pb) deps \<Rightarrow> ('r, 'c, 'p, 'k) rollDPoSCtx
     \<Rightarrow> ('b, 'e) EndorsedConsensusMessage option \<times> error option" where
  "mintNewBlock D ctx =
     (let actionMap = ap_PendingActionMap D (ctx_actPool ctx) in
      case ch_MintNewBlock D (ctx_chain ctx) actionMap (r_StartTime D (ctx_round ctx)) of
        Inl err \<Rightarrow> (None, Some err)
      | Inr blk \<Rightarrow>
          let proofOfUnlock =
                (if r_IsUnlocked D (ctx_round ctx) then r_ProofOfLock D (ctx_round ctx) else [])
          in endorseBlockProposal D ctx (newBlockProposal blk proofOfUnlock))"

text \<open>
  \<^verbatim>\<open>Proposal\<close>.  In the locked case the block is looked up by the locked hash; were the
  lookup to return nil, the proposal would carry a nil block, whose height
  \<^verbatim>\<open>endorseBlockProposal\<close> reads: that is the panic of the model.  The first path
  returns the nil interface; the other two return the helper's pointer as an interface.
\<close>

definition Proposal ::
  "('r, 'c, 'p, 'b, 'e, 'k, 'a, 'pb) deps \<Rightarrow> ('r, 'c, 'p, 'k) rollDPoSCtx
     \<Rightarrow> (('b, 'e) EndorsedConsensusMessage iface \<times> error option) outcome" where
  "Proposal D ctx =
     (if r_Proposer D (ctx_round ctx) \<noteq> ctx_encodedAddr ctx then Return (IfaceNil, None)
      else if r_IsLocked D (ctx_round ctx) then
        (case r_Block D (ctx_round ctx) (r_HashOfBlockInLock D (ctx_round ctx)) of
           None \<Rightarrow> Panic ''nil pointer dereference''
         | Some blk \<Rightarrow>
             Return (ret_iface (endorseBlockProposal D ctx
                       (newBlockProposal blk (r_ProofOfLock D (ctx_round ctx))))))
      else Return (ret_iface (mintNewBlock D ctx)))"

definition PreCommitEndorsement ::
  "('r, 'c, 'p, 'b, 'e, 'k, 'a, 'pb) deps \<Rightarrow> ('r, 'c, 'p, 'k) rollDPoSCtx
     \<Rightarrow> ('b, 'e) EndorsedConsensusMessage iface" where
  "PreCommitEndorsement D ctx =
     (case r_ReadyToCommit D (ctx_round ctx) (ctx_encodedAddr ctx) of
        None \<Rightarrow> IfaceNil
      | Some endorsement \<Rightarrow> IfacePtr endorsement)"

text \<open>
  \<^verbatim>\<open>verifyVote\<close> returns the vote's block hash and an error, and leaves the vote in the
  round context.
\<close>

definition verifyVote ::
  "('r, 'c, 'p, 'b, 'e, 'k, 'a, 'pb) deps \<Rightarrow> ('r, 'c, 'p, 'k) rollDPoSCtx \<Rightarrow> ('b, 'e) Msg
     \<Rightarrow> ConsensusVoteTopic list
     \<Rightarrow> (bytes \<times> error option) \<times> ('r, 'c, 'p, 'k) rollDPoSCtx" where
  "verifyVote D ctx msg topics =
     (case msg of
        MsgECM consensusMsg \<Rightarrow>
          (case ecm_message consensusMsg of
             DocVote vote \<Rightarrow>
               let blkHash = vote_blockHash vote;
                   endorsement = ecm_endorsement consensusMsg
               in (case r_AddVoteEndorsement D (ctx_round ctx) vote endorsement of
                     (Some err, round') \<Rightarrow> ((blkHash, Some err), ctx\<lparr>ctx_round := round'\<rparr>)
                   | (None, round') \<Rightarrow>
                       if \<not> r_EndorsedByMajority D round' blkHash topics
                       then ((blkHash, Some ErrInsufficientEndorsements),
                             ctx\<lparr>ctx_round := round'\<rparr>)
                       else ((blkHash, None), ctx\<lparr>ctx_round := round'\<rparr>))
           | DocProposal p \<Rightarrow> (([], Some (New ''invalid msg'')), ctx))
      | MsgNil \<Rightarrow> (([], Some (New ''invalid msg'')), ctx)
      | MsgOther \<Rightarrow> (([], Some (New ''invalid msg'')), ctx))"

definition NewProposalEndorsement ::
  "('r, 'c, 'p, 'b, 'e, 'k, 'a, 'pb) deps \<Rightarrow> ('r, 'c, 'p, 'k) rollDPoSCtx \<Rightarrow> ('b, 'e) Msg
     \<Rightarrow> (('b, 'e) EndorsedConsensusMessage iface \<times> error option)
         \<times> ('r, 'c, 'p, 'k) rollDPoSCtx" where
  "NewProposalEndorsement D ctx msg =
     (case msg of
        MsgNil \<Rightarrow>
          let blockHash =
                (if r_IsLocked D (ctx_round ctx) then r_HashOfBlockInLock D (ctx_round ctx)
                 else [])
          in (ret_iface (newEndorsement D ctx blockHash PROPOSAL
                (Time_Add (r_StartTime D (ctx_round ctx)) (AcceptBlockTTL (FSM (ctx_cfg ctx))))),
              ctx)
      | MsgOther \<Rightarrow> ((IfaceNil, Some (New ''invalid endorsed block'')), ctx)
      | MsgECM ecm \<Rightarrow>
          (case ecm_message ecm of
             DocVote v \<Rightarrow> ((IfaceNil, Some (New ''invalid endorsed block'')), ctx)
           | DocProposal proposal \<Rightarrow>
               let blockHash = b_HashBlock D (bp_block proposal) in
               (case (if b_WorkingSet_nil D (bp_block proposal)
                      then ch_ValidateBlock D (ctx_chain ctx) (bp_block proposal)
                      else None) of
                  Some err \<Rightarrow>
                    ((IfaceNil, Some (Wrap err ''error when validating the proposed block'')),
                     ctx)
                | None \<Rightarrow>
                    (case r_AddBlock D (ctx_round ctx) (bp_block proposal) of
                       (Some err, round') \<Rightarrow>
                         ((IfaceNil, Some err), ctx\<lparr>ctx_round := round'\<rparr>)
                     | (None, round') \<Rightarrow>
                         (ret_iface (newEndorsement D (ctx\<lparr>ctx_round := round'\<rparr>) blockHash
                            PROPOSAL
                            (Time_Add (r_StartTime D round') (AcceptBlockTTL (FSM (ctx_cfg ctx))))),
                          ctx\<lparr>ctx_round := round'\<rparr>)))))"

definition NewLockEndorsement ::
  "('r, 'c, 'p, 'b, 'e, 'k, 'a, 'pb) deps \<Rightarrow> ('r, 'c, 'p, 'k) rollDPoSCtx \<Rightarrow> ('b, 'e) Msg
     \<Rightarrow> (('b, 'e) EndorsedConsensusMessage iface \<times> error option)
         \<times> ('r, 'c, 'p, 'k) rollDPoSCtx" where
  "NewLockEndorsement D ctx msg =
     (case verifyVote D ctx msg [PROPOSAL, COMMIT] of
        ((blkHash, err), ctx') \<Rightarrow>
          if Cause err = Some ErrInsufficientEndorsements then ((IfaceNil, None), ctx')
          else if Cause err = None \<and> length blkHash \<noteq> 0 then
            (ret_iface (newEndorsement D ctx' blkHash LOCK
               (Time_Add (r_StartTime D (ctx_round ctx'))
                  (AcceptBlockTTL (FSM (ctx_cfg ctx'))
                     + AcceptProposalEndorsementTTL (FSM (ctx_cfg ctx'))))),
             ctx')
          else ((IfaceNil, err), ctx'))"

definition NewPreCommitEndorsement ::
  "('r, 'c, 'p, 'b, 'e, 'k, 'a, 'pb) deps \<Rightarrow> ('r, 'c, 'p, 'k) rollDPoSCtx \<Rightarrow> ('b, 'e) Msg
     \<Rightarrow> (('b, 'e) EndorsedConsensusMessage iface \<times> error option)
         \<times> ('r, 'c, 'p, 'k) rollDPoSCtx" where
  "NewPreCommitEndorsement D ctx msg =
     (case verifyVote D ctx msg [LOCK, COMMIT] of
        ((blkHash, err), ctx') \<Rightarrow>
          if Cause err = Some ErrInsufficientEndorsements then ((IfaceNil, None), ctx')
          else if Cause err = None then
            (ret_iface (newEndorsement D ctx' blkHash COMMIT
               (Time_Add (r_StartTime D (ctx_round ctx'))
                  (AcceptBlockTTL (FSM (ctx_cfg ctx'))
                     + AcceptProposalEndorsementTTL (FSM (ctx_cfg ctx'))
                     + AcceptLockEndorsementTTL (FSM (ctx_cfg ctx'))))),
             ctx')
          else ((IfaceNil, err), ctx'))"

text \<open>
  \<^verbatim>\<open>Commit\<close>.  The result is what the call returns (or its panic), the context
  afterwards, and the calls made to the chain, the action pool and the broadcast handler.
  The block is a value: \<open>b_Finalize\<close> returns the finalized block, which is the one
  committed and broadcast.  After a successful commit the block is converted for the
  network; a nil conversion panics.  For a height above 1 the header of the previous block
  is looked up for a metric; the lookup's error is only logged and the header is read
  whether or not it is nil.
\<close>

definition Commit ::
  "('r, 'c, 'p, 'b, 'e, 'k, 'a, 'pb) deps \<Rightarrow> ('r, 'c, 'p, 'k) rollDPoSCtx \<Rightarrow> ('b, 'e) Msg
     \<Rightarrow> (bool \<times> error option) outcome \<times> ('r, 'c, 'p, 'k) rollDPoSCtx \<times> ('b, 'pb) event list"
  where
  "Commit D ctx msg =
     (case verifyVote D ctx msg [COMMIT] of
        ((blkHash, err), ctx1) \<Rightarrow>
          if Cause err = Some ErrInsufficientEndorsements then (Return (False, None), ctx1, [])
          else if Cause err \<noteq> None then (Return (False, err), ctx1, [])
          else
            (case r_Block D (ctx_round ctx1) blkHash of
               None \<Rightarrow> (Return (False, None), ctx1, [])
             | Some pendingBlock \<Rightarrow>
                 (case b_Finalize D pendingBlock
                         (r_Endorsements D (ctx_round ctx1) blkHash [COMMIT])
                         (Time_Add (r_StartTime D (ctx_round ctx1))
                            (AcceptBlockTTL (FSM (ctx_cfg ctx1))
                               + AcceptProposalEndorsementTTL (FSM (ctx_cfg ctx1))
                               + AcceptLockEndorsementTTL (FSM (ctx_cfg ctx1)))) of
                    (Some ferr, blk) \<Rightarrow>
                      (Return (False, Some (Wrap ferr ''failed to add endorsements to block'')),
                       ctx1, [])
                  | (None, blk) \<Rightarrow>
                      (case ch_CommitBlock D (ctx_chain ctx1) blk of
                         (cerr, chain') \<Rightarrow>
                           let ctx2 = ctx1\<lparr>ctx_chain := chain'\<rparr>;
                               ev = EvCommitBlock blk cerr
                           in
                           (case cerr of
                              Some e \<Rightarrow>
                                if Cause_of e = ErrInvalidTipHeight
                                then (Return (True, None), ctx2, [ev])
                                else (Return (False,
                                        Some (Wrap e ''error when committing a block'')),
                                      ctx2, [ev])
                            | None \<Rightarrow>
                                let ctx3 = ctx2\<lparr>ctx_actPool := ap_Reset D (ctx_actPool ctx2)\<rparr>
                                in
                                (case b_ConvertToBlockPb D blk of
                                   None \<Rightarrow>
                                     (Panic ''error when converting a block into a proto msg'',
                                      ctx3, [ev, EvActPoolReset])
                                 | Some blkProto \<Rightarrow>
                                     let evs = [ev, EvActPoolReset,
                                                EvBroadcast blkProto (broadcastHandler D blkProto)]
                                     in
                                     if 1 < b_Height D blk then
                                       (case ch_BlockHeaderByHeight D chain' (b_Height D blk - 1) of
                                          (None, herr) \<Rightarrow>
                                            (Panic ''nil pointer dereference'', ctx3, evs)
                                        | (Some hdr, herr) \<Rightarrow> (Return (True, None), ctx3, evs))
                                     else (Return (True, None), ctx3, evs)))))))"

section \<open>Runs of the context\<close>

text \<open>
  The methods that can change the context, as calls with their arguments, and the state
  after a sequence of them.  A panic ends the run.
\<close>

datatype ('b, 'e) call =
    CallPrepare Time
  | CallNewProposalEndorsement "('b, 'e) Msg"
  | CallNewLockEndorsement "('b, 'e) Msg"
  | CallNewPreCommitEndorsement "('b, 'e) Msg"
  | CallCommit "('b, 'e) Msg"
  | CallActivate bool

fun step ::
  "('r, 'c, 'p, 'b, 'e, 'k, 'a, 'pb) deps \<Rightarrow> ('r, 'c, 'p, 'k) rollDPoSCtx \<Rightarrow> ('b, 'e) call
     \<Rightarrow> bool \<times> ('r, 'c, 'p, 'k) rollDPoSCtx" where
  "step D ctx (CallPrepare now) = (False, snd (Prepare D ctx now))"
| "step D ctx (CallNewProposalEndorsement msg) = (False, snd (NewProposalEndorsement D ctx msg))"
| "step D ctx (CallNewLockEndorsement msg) = (False, snd (NewLockEndorsement D ctx msg))"
| "step D ctx (CallNewPreCommitEndorsement msg) = (False, snd (NewPreCommitEndorsement D ctx msg))"
| "step D ctx (CallCommit msg) =
     (case Commit D ctx msg of
        (Panic m, ctx', evs) \<Rightarrow> (True, ctx')
      | (Return r, ctx', evs) \<Rightarrow> (False, ctx'))"
| "step D ctx (CallActivate a) = (False, Activate ctx a)"

fun run ::
  "('r, 'c, 'p, 'b, 'e, 'k, 'a, 'pb) deps \<Rightarrow> ('r, 'c, 'p, 'k) rollDPoSCtx \<Rightarrow> ('b, 'e) call list
     \<Rightarrow> ('r, 'c, 'p, 'k) rollDPoSCtx" where
  "run D ctx [] = ctx"
| "run D ctx (c # cs) =
     (case step D ctx c of
        (True, ctx') \<Rightarrow> ctx'
      | (False, ctx') \<Rightarrow> run D ctx' cs)"

section \<open>An instance of the parameters\<close>

text \<open>
  A small chain, round context, block and endorsement, to evaluate the functions above on
  explicit inputs.  An endorsement records who signed which document at what time; the round
  context admits a vote only from a delegate whose endorsement signs exactly that vote,
  counts distinct endorsers against a quorum, and locks a hash once PROPOSAL and COMMIT
  votes for it reach the quorum.  Rounds last 10 time units and the proposer rotates with
  the round.  Signing fails for the empty key, minting and committing fail when the chain
  is flagged so, and a block converts for the network unless flagged otherwise.
\<close>

datatype signed_doc = SignedVote bytes ConsensusVoteTopic | SignedProposal bytes

record t_endorsement =
  te_endorser :: string
  te_time :: Time
  te_doc :: signed_doc

record t_block =
  tb_height :: uint64
  tb_time :: Time
  tb_producer :: string
  tb_hash :: bytes
  tb_sigok :: bool
  tb_pb :: bool
  tb_commits :: "string list"

record t_chain =
  tc_tip :: uint64
  tc_delegates :: "string list"
  tc_quorum :: nat
  tc_fail_mint :: bool
  tc_fail_commit :: bool

record t_round =
  tr_height :: uint64
  tr_start :: Time
  tr_proposer :: string
  tr_delegates :: "string list"
  tr_quorum :: nat
  tr_blocks :: "t_block list"
  tr_votes :: "(ConsensusVote \<times> t_endorsement) list"
  tr_lock :: "bytes option"

definition t_Proposer :: "t_chain \<Rightarrow> uint64 \<Rightarrow> Time \<Rightarrow> string" where
  "t_Proposer c h t = tc_delegates c ! (nat (t div 10) mod length (tc_delegates c))"

definition t_NewRound :: "t_chain \<Rightarrow> uint64 \<Rightarrow> Time \<Rightarrow> error + t_round" where
  "t_NewRound c h t =
     (if tc_delegates c = [] then Inl (New ''no delegates'')
      else Inr \<lparr>tr_height = (if h = 0 then tc_tip c + 1 else h), tr_start = (t div 10) * 10,
                tr_proposer = t_Proposer c h t, tr_delegates = tc_delegates c,
                tr_quorum = tc_quorum c, tr_blocks = [], tr_votes = [], tr_lock = None\<rparr>)"

definition t_UpdateRound :: "t_chain \<Rightarrow> t_round \<Rightarrow> uint64 \<Rightarrow> Time \<Rightarrow> error + t_round" where
  "t_UpdateRound c r h t =
     (if tr_height r = h \<and> tr_start r = (t div 10) * 10 then Inr r
      else case t_NewRound c h t of
             Inl err \<Rightarrow> Inl err
           | Inr r' \<Rightarrow> Inr (if tr_height r = h
                            then r'\<lparr>tr_blocks := tr_blocks r, tr_votes := tr_votes r,
                                    tr_lock := tr_lock r\<rparr>
                            else r'))"

definition t_endorsers :: "t_round \<Rightarrow> bytes \<Rightarrow> ConsensusVoteTopic list \<Rightarrow> t_endorsement list" where
  "t_endorsers r h topics =
     map snd (filter (\<lambda>(v, e). vote_blockHash v = h \<and> vote_topic v \<in> set topics) (tr_votes r))"

definition t_EndorsedByMajority :: "t_round \<Rightarrow> bytes \<Rightarrow> ConsensusVoteTopic list \<Rightarrow> bool" where
  "t_EndorsedByMajority r h topics =
     (tr_quorum r \<le> length (remdups (map te_endorser (t_endorsers r h topics))))"

definition t_AddBlock :: "t_round \<Rightarrow> t_block \<Rightarrow> error option \<times> t_round" where
  "t_AddBlock r b =
     (if tb_hash b \<in> set (map tb_hash (tr_blocks r)) then (Some (New ''already exists''), r)
      else (None, r\<lparr>tr_blocks := tr_blocks r @ [b]\<rparr>))"

definition t_AddVoteEndorsement ::
  "t_round \<Rightarrow> ConsensusVote \<Rightarrow> t_endorsement \<Rightarrow> error option \<times> t_round" where
  "t_AddVoteEndorsement r v e =
     (if te_endorser e \<notin> set (tr_delegates r) then (Some (New ''not a delegate''), r)
      else if te_doc e \<noteq> SignedVote (vote_blockHash v) (vote_topic v)
      then (Some (New ''invalid signature''), r)
      else
        let r1 = (if (v, e) \<in> set (tr_votes r) then r else r\<lparr>tr_votes := tr_votes r @ [(v, e)]\<rparr>)
        in (None,
            if t_EndorsedByMajority r1 (vote_blockHash v) [PROPOSAL, COMMIT]
            then r1\<lparr>tr_lock := Some (vote_blockHash v)\<rparr> else r1))"

definition t_Endorse ::
  "string \<Rightarrow> (t_block, t_endorsement) Document \<Rightarrow> Time \<Rightarrow> error + t_endorsement" where
  "t_Endorse key doc ts =
     (if key = [] then Inl (New ''cannot sign'')
      else Inr \<lparr>te_endorser = key, te_time = ts,
                te_doc = (case doc of
                            DocVote v \<Rightarrow> SignedVote (vote_blockHash v) (vote_topic v)
                          | DocProposal p \<Rightarrow> SignedProposal (tb_hash (bp_block p)))\<rparr>)"

definition t_MintNewBlock :: "t_chain \<Rightarrow> nat \<Rightarrow> Time \<Rightarrow> error + t_block" where
  "t_MintNewBlock c actions t =
     (if tc_fail_mint c then Inl (New ''cannot mint'')
      else Inr \<lparr>tb_height = tc_tip c + 1, tb_time = t,
                tb_producer = t_Proposer c (tc_tip c + 1) t,
                tb_hash = [of_nat actions, ucast (tc_tip c + 1)], tb_sigok = True, tb_pb = True,
                tb_commits = []\<rparr>)"

definition t_CommitBlock :: "t_chain \<Rightarrow> t_block \<Rightarrow> error option \<times> t_chain" where
  "t_CommitBlock c b =
     (if tb_height b \<noteq> tc_tip c + 1 then (Some (Wrap ErrInvalidTipHeight ''wrong height''), c)
      else if tc_fail_commit c then (Some (New ''cannot write''), c)
      else (None, c\<lparr>tc_tip := tc_tip c + 1\<rparr>))"

definition t_Finalize ::
  "t_block \<Rightarrow> t_endorsement list \<Rightarrow> Time \<Rightarrow> error option \<times> t_block" where
  "t_Finalize b ens ts =
     (if ens = [] then (Some (New ''no endorsements''), b)
      else (None, b\<lparr>tb_commits := map te_endorser ens\<rparr>))"

definition t_deps ::
  "(t_round, t_chain, nat, t_block, t_endorsement, string, nat, bytes) deps" where
  "t_deps =
     \<lparr>rc_NewRound = t_NewRound,
      rc_NewRoundWithToleration = t_NewRound,
      rc_UpdateRound = t_UpdateRound,
      rc_Proposer = t_Proposer,
      rc_IsDelegate = (\<lambda>c a h. a \<in> set (tc_delegates c)),
      r_AddBlock = t_AddBlock,
      r_AddVoteEndorsement = t_AddVoteEndorsement,
      r_EndorsedByMajority = t_EndorsedByMajority,
      r_Endorsements = t_endorsers,
      r_ReadyToCommit = (\<lambda>r a. None),
      r_IsDelegate = (\<lambda>r a. a \<in> set (tr_delegates r)),
      r_Proposer = tr_proposer,
      r_IsLocked = (\<lambda>r. tr_lock r \<noteq> None),
      r_IsUnlocked = (\<lambda>r. False),
      r_HashOfBlockInLock = (\<lambda>r. case tr_lock r of None \<Rightarrow> [] | Some h \<Rightarrow> h),
      r_Block = (\<lambda>r h. find (\<lambda>b. tb_hash b = h) (tr_blocks r)),
      r_ProofOfLock = (\<lambda>r. case tr_lock r of None \<Rightarrow> []
                            | Some h \<Rightarrow> t_endorsers r h [PROPOSAL, COMMIT]),
      r_StartTime = tr_start,
      r_Height = tr_height,
      ch_TipHeight = tc_tip,
      ch_MintNewBlock = t_MintNewBlock,
      ch_ValidateBlock = (\<lambda>c b. if tb_height b = tc_tip c + 1 then None
                                 else Some (New ''invalid block'')),
      ch_CommitBlock = t_CommitBlock,
      ch_BlockHeaderByHeight = (\<lambda>c h. if h \<le> tc_tip c then (Some (), None)
                                       else (None, Some ErrNotExist)),
      ap_PendingActionMap = (\<lambda>p. p),
      ap_Reset = (\<lambda>p. 0),
      b_Height = tb_height,
      b_Timestamp = tb_time,
      b_HashBlock = tb_hash,
      b_VerifySignature = tb_sigok,
      b_WorkingSet_nil = (\<lambda>b. True),
      b_ProposerAddress = tb_producer,
      b_Finalize = t_Finalize,
      b_ConvertToBlockPb = (\<lambda>b. if tb_pb b then Some (tb_hash b) else None),
      en_Endorse = t_Endorse,
      en_EndorserAddress = (\<lambda>e. if te_endorser e = [] then Inl (New ''invalid address'')
                                  else Inr (te_endorser e)),
      en_Timestamp = te_time,
      broadcastHandler = (\<lambda>pb. None)\<rparr>"

text \<open>Three delegates, quorum 2, tip at height 1; round 0 of height 2 belongs to \<open>d0\<close>.\<close>

definition t_chain0 :: t_chain where
  "t_chain0 = \<lparr>tc_tip = 1, tc_delegates = [''d0'', ''d1'', ''d2''], tc_quorum = 2,
               tc_fail_mint = False, tc_fail_commit = False\<rparr>"

definition t_cfg :: config_RollDPoS where
  "t_cfg = \<lparr>FSM = \<lparr>AcceptBlockTTL = 4, AcceptProposalEndorsementTTL = 2,
                   AcceptLockEndorsementTTL = 2, CommitTTL = 2, UnmatchedEventTTL = 3\<rparr>\<rparr>"

definition t_round0 :: t_round where
  "t_round0 = \<lparr>tr_height = 2, tr_start = 0, tr_proposer = ''d0'',
               tr_delegates = [''d0'', ''d1'', ''d2''], tr_quorum = 2, tr_blocks = [],
               tr_votes = [], tr_lock = None\<rparr>"

definition t_ctx :: "(t_round, t_chain, nat, string) rollDPoSCtx" where
  "t_ctx = \<lparr>ctx_cfg = t_cfg, ctx_chain = t_chain0, ctx_actPool = 5, ctx_encodedAddr = ''d0'',
            ctx_priKey = ''d0'', ctx_round = t_round0, ctx_active = True\<rparr>"

text \<open>A block for height 2 made by \<open>d0\<close> in round 0, and votes on it.\<close>

definition t_blk :: t_block where
  "t_blk = \<lparr>tb_height = 2, tb_time = 0, tb_producer = ''d0'', tb_hash = [5, 2],
            tb_sigok = True, tb_pb = True, tb_commits = []\<rparr>"

definition t_en :: "string \<Rightarrow> Time \<Rightarrow> ConsensusVoteTopic \<Rightarrow> t_endorsement" where
  "t_en who ts topic = \<lparr>te_endorser = who, te_time = ts, te_doc = SignedVote [5, 2] topic\<rparr>"

definition t_vote_msg ::
  "string \<Rightarrow> Time \<Rightarrow> ConsensusVoteTopic \<Rightarrow> (t_block, t_endorsement) Msg" where
  "t_vote_msg who ts topic =
     MsgECM (NewEndorsedConsensusMessage 2 (DocVote (NewConsensusVote [5, 2] topic))
               (t_en who ts topic))"

text \<open>
  Round 1 of height 2 starts at time 10 and belongs to \<open>d1\<close>, who proposes the block of round 0
  again with two endorsements of it as proof of lock: a PROPOSAL vote of \<open>d0\<close> and a COMMIT
  vote of \<open>d2\<close>.
\<close>

definition t_en1 :: t_endorsement where
  "t_en1 = \<lparr>te_endorser = ''d1'', te_time = 10, te_doc = SignedProposal [5, 2]\<rparr>"

definition t_proposal :: "(t_block, t_endorsement) blockProposal" where
  "t_proposal = newBlockProposal t_blk [t_en ''d0'' 1 PROPOSAL, t_en ''d2'' 2 COMMIT]"

definition t_round1 :: t_round where
  "t_round1 = \<lparr>tr_height = 2, tr_start = 10, tr_proposer = ''d1'',
               tr_delegates = [''d0'', ''d1'', ''d2''], tr_quorum = 2, tr_blocks = [],
               tr_votes = [], tr_lock = None\<rparr>"

text \<open>
  Round 0 holding the block and a COMMIT vote of \<open>d1\<close> for it: the COMMIT vote of \<open>d2\<close>
  completes the quorum.
\<close>

definition t_round_c :: t_round where
  "t_round_c = t_round0\<lparr>tr_blocks := [t_blk],
                 tr_votes := [(NewConsensusVote [5, 2] COMMIT, t_en ''d1'' 7 COMMIT)]\<rparr>"

definition t_ctx_c :: "(t_round, t_chain, nat, string) rollDPoSCtx" where
  "t_ctx_c = t_ctx\<lparr>ctx_round := t_round_c\<rparr>"

text \<open>
  Round 0 locked on the block by PROPOSAL votes of \<open>d1\<close> and \<open>d2\<close>; and round 0 holding only
  the PROPOSAL vote of \<open>d1\<close>.
\<close>

definition t_round_l :: t_round where
  "t_round_l = t_round0\<lparr>tr_blocks := [t_blk],
                 tr_votes := [(NewConsensusVote [5, 2] PROPOSAL, t_en ''d1'' 4 PROPOSAL),
                              (NewConsensusVote [5, 2] PROPOSAL, t_en ''d2'' 4 PROPOSAL)],
                 tr_lock := Some [5, 2]\<rparr>"

definition t_round_p :: t_round where
  "t_round_p = t_round0\<lparr>tr_blocks := [t_blk],
                 tr_votes := [(NewConsensusVote [5, 2] PROPOSAL, t_en ''d1'' 4 PROPOSAL)]\<rparr>"

section \<open>The bloom filter has no false negatives\<close>

lemma bit_index_lt: "unat (drop_bit 3 (pos::byte)) < 32"
proof -
  have "unat pos < 256" using unsigned_less[of pos, where 'a=nat] by simp
  hence "unat pos div 8 < 32" by simp
  thus ?thesis by (simp add: drop_bit_eq_div unat_div)
qed

lemma mask_nz: "(push_bit (unat ((pos::byte) AND 7)) 1 :: byte) \<noteq> 0"
proof -
  have "pos AND 7 \<le> 7" by (rule word_and_le1)
  hence "unat (pos AND 7) \<le> 7" by (simp add: word_le_nat_alt)
  thus ?thesis by (simp add: push_bit_eq_mult exp_eq_zero_iff)
qed

lemma or_and_nz: "(x::byte) AND m \<noteq> 0 \<Longrightarrow> (x OR y) AND m \<noteq> 0"
  by (simp add: bit.conj_disj_distrib2 or_eq_0_iff)

lemma length_setBit: "length (setBit f p) = length f"
  by (simp add: setBit_def Let_def)

lemma chkBit_setBit_same: "length f = 32 \<Longrightarrow> chkBit (setBit f p) p"
  using bit_index_lt[of p] mask_nz[of p]
  by (simp add: chkBit_def setBit_def Let_def)

lemma chkBit_setBit_mono: "chkBit f p \<Longrightarrow> chkBit (setBit f q) p"
proof (cases "unat (drop_bit 3 q) < length f")
  case True
  assume "chkBit f p"
  thus ?thesis using True
    by (auto simp: chkBit_def setBit_def Let_def nth_list_update or_and_nz)
next
  case False
  assume "chkBit f p"
  thus ?thesis using False by (simp add: chkBit_def setBit_def Let_def list_update_beyond)
qed

lemma length_fold_setBit: "length (fold (\<lambda>i g. setBit g (h ! i)) is f) = length f"
  by (induction "is" arbitrary: f) (simp_all add: length_setBit)

lemma chkBit_fold_setBit_mono:
  "chkBit f p \<Longrightarrow> chkBit (fold (\<lambda>i g. setBit g (h ! i)) is f) p"
  by (induction "is" arbitrary: f) (simp_all add: chkBit_setBit_mono)

lemma chkBit_fold_setBit_mem:
  "length f = 32 \<Longrightarrow> i \<in> set is \<Longrightarrow> chkBit (fold (\<lambda>i g. setBit g (h ! i)) is f) (h ! i)"
proof (induction "is" arbitrary: f)
  case Nil
  then show ?case by simp
next
  case (Cons j js)
  show ?case
  proof (cases "i = j")
    case True
    have "chkBit (setBit f (h ! j)) (h ! j)"
      using Cons.prems(1) by (rule chkBit_setBit_same)
    thus ?thesis using True by (simp add: chkBit_fold_setBit_mono)
  next
    case False
    hence "i \<in> set js" using Cons.prems(2) by simp
    moreover have "length (setBit f (h ! j)) = 32"
      using Cons.prems(1) by (simp add: length_setBit)
    ultimately show ?thesis using Cons.IH by simp
  qed
qed

lemma Exist_from_iff: "Exist_from f h is \<longleftrightarrow> (\<forall>i \<in> set is. chkBit f (h ! i))"
  by (induction "is") auto

lemma length_Add: "length (bloomFilter_Add H f k) = length f"
  by (simp add: bloomFilter_Add_def Let_def length_fold_setBit)

lemma chkBit_Add_mono: "chkBit f p \<Longrightarrow> chkBit (bloomFilter_Add H f k) p"
  by (simp add: bloomFilter_Add_def Let_def chkBit_fold_setBit_mono)

lemma chkBit_Add_all_mono: "chkBit f p \<Longrightarrow> chkBit (Add_all H f ks) p"
  unfolding Add_all_def
  by (induction ks arbitrary: f) (simp_all add: chkBit_Add_mono)

lemma Exist_Add_all_mono:
  "bloomFilter_Exist H f k \<Longrightarrow> bloomFilter_Exist H (Add_all H f ks) k"
  by (simp add: bloomFilter_Exist_def Let_def Exist_from_iff chkBit_Add_all_mono)

lemma Exist_Add: "length f = 32 \<Longrightarrow> bloomFilter_Exist H (bloomFilter_Add H f k) k"
  unfolding bloomFilter_Exist_def bloomFilter_Add_def Let_def Exist_from_iff
  using chkBit_fold_setBit_mem by blast

text \<open>
  Claim C10.  For every filter \<open>f\<close> (a 32-byte array), every digest function and every key
  \<open>k\<close>: after \<open>Add k\<close>, \<open>Exist k\<close> is true, and it is still true after any further sequence
  \<open>ks\<close> of \<open>Add\<close> calls.
\<close>

theorem bloom_no_false_negative:
  assumes "length f = 32"
  shows "bloomFilter_Exist H (bloomFilter_Add H f k) k
       \<and> bloomFilter_Exist H (Add_all H (bloomFilter_Add H f k) ks) k"
  using assms by (simp add: Exist_Add Exist_Add_all_mono)

theorem bloom_no_false_negative_witness:
  "length NewBloomFilter = 32 \<and>
   bloomFilter_Exist test_hash (bloomFilter_Add test_hash NewBloomFilter test_key) test_key \<and>
   bloomFilter_Exist test_hash
     (Add_all test_hash (bloomFilter_Add test_hash NewBloomFilter test_key)
        [replicate 32 7, replicate 32 200]) test_key"
proof -
  have len: "length NewBloomFilter = 32" by (simp add: NewBloomFilter_def)
  show ?thesis using len bloom_no_false_negative [OF len] by simp
qed

section \<open>The counting index swallows the I/O error\<close>

lemma Add_attempts_all_fail:
  "\<forall>d body. \<exists>e d'. db_Update B d body = (Some e, d') \<Longrightarrow> i < ci_numRetries c \<Longrightarrow>
   \<exists>e d'. Add_attempts B c v i err d = (Some e, d')"
proof (induction B c v i err d rule: Add_attempts.induct)
  case (1 B c v i err d)
  obtain e d' where upd: "db_Update B d (Add_tx B c v) = (Some e, d')"
    using "1.prems"(1) by blast
  show ?case
  proof (cases "i + 1 < ci_numRetries c")
    case True
    have "\<exists>e' d''. Add_attempts B c v (i + 1) (Some e) d' = (Some e', d'')"
      using "1.IH"[OF "1.prems"(2) upd[symmetric] refl "1.prems"(1) True] .
    thus ?thesis
      using "1.prems"(2) upd by (subst Add_attempts.simps) simp
  next
    case False
    have "Add_attempts B c v (i + 1) (Some e) d' = (Some e, d')"
      using False by (subst Add_attempts.simps) simp
    thus ?thesis
      using "1.prems"(2) upd by (subst Add_attempts.simps) simp
  qed
qed

lemma Add_attempts_failing_bolt:
  "Add_attempts failing_bolt test_index [9] 0 None 0 = (Some (New ''disk failure''), 3)"
  by (simp add: Add_attempts.simps failing_bolt_def test_index_def)

text \<open>
  The caller cannot tell the two databases apart: \<open>Add\<close> returns nil and the same size on
  both.
\<close>

lemma countingIndex_Add_working_bolt:
  "countingIndex_Add working_bolt test_index [9] = (None, test_index\<lparr>ci_db := 1, ci_size := 42\<rparr>)"
  by (simp add: countingIndex_Add_def Add_attempts.simps Add_tx_def working_bolt_def
      failing_bolt_def test_index_def)

text \<open>
  Claim C9.  For every value \<open>v\<close>, every counting index \<open>c\<close> and every behaviour \<open>B\<close> of the
  database, \<open>Add\<close> returns nil and \<open>Size\<close> grows by one (in \<open>uint64\<close> arithmetic, as
  \<^verbatim>\<open>c.size++\<close> computes it).  When the retry loop ends with the error \<open>e\<close> of its last
  attempt, \<open>Add\<close> still returns nil, with the size incremented: \<open>e\<close> does not reach the caller.
\<close>

theorem countingIndex_Add_swallows_error:
  "fst (countingIndex_Add B c v) = None
   \<and> countingIndex_Size (snd (countingIndex_Add B c v)) = countingIndex_Size c + 1
   \<and> (\<forall>e d'. Add_attempts B c v 0 None (ci_db c) = (Some e, d')
        \<longrightarrow> countingIndex_Add B c v = (None, c\<lparr>ci_db := d', ci_size := ci_size c + 1\<rparr>))"
  by (simp add: countingIndex_Add_def countingIndex_Size_def Let_def split: prod.splits)

theorem countingIndex_Add_swallows_error_witness:
  "Add_attempts failing_bolt test_index [9] 0 None (ci_db test_index)
     = (Some (New ''disk failure''), 3)
   \<and> countingIndex_Add failing_bolt test_index [9]
     = (None, test_index\<lparr>ci_db := 3, ci_size := 42\<rparr>)"
proof -
  have run: "Add_attempts failing_bolt test_index [9] 0 None (ci_db test_index)
      = (Some (New ''disk failure''), 3)"
    using Add_attempts_failing_bolt by (simp add: test_index_def)
  have "countingIndex_Add failing_bolt test_index [9]
      = (None, test_index\<lparr>ci_db := 3, ci_size := ci_size test_index + 1\<rparr>)"
    using countingIndex_Add_swallows_error [of failing_bolt test_index "[9]"] run by blast
  thus ?thesis using run by (simp add: test_index_def)
qed

section \<open>The TTL check at construction\<close>

lemma ttl_panic_neq: "ttl_panic \<noteq> round_panic"
  by (simp add: ttl_panic_def round_panic_def)

lemma ttl_sum_t_cfg: "ttl_sum t_cfg = 10"
  by (simp add: ttl_sum_def t_cfg_def)

text \<open>
  With non-negative TTLs whose sum fits into \<^verbatim>\<open>int64\<close>, the sum the code compares is the
  sum of the numbers.
\<close>

lemma ttl_sum_no_overflow:
  assumes "0 \<le> sint (AcceptBlockTTL (FSM cfg))"
    and "0 \<le> sint (AcceptProposalEndorsementTTL (FSM cfg))"
    and "0 \<le> sint (AcceptLockEndorsementTTL (FSM cfg))"
    and "0 \<le> sint (CommitTTL (FSM cfg))"
    and "sint (AcceptBlockTTL (FSM cfg)) + sint (AcceptProposalEndorsementTTL (FSM cfg))
           + sint (AcceptLockEndorsementTTL (FSM cfg)) + sint (CommitTTL (FSM cfg)) < 2 ^ 63"
  shows "sint (ttl_sum cfg) =
           sint (AcceptBlockTTL (FSM cfg)) + sint (AcceptProposalEndorsementTTL (FSM cfg))
           + sint (AcceptLockEndorsementTTL (FSM cfg)) + sint (CommitTTL (FSM cfg))"
proof -
  have add: "sint (a + b) = sint a + sint b"
    if "0 \<le> sint a" "0 \<le> sint b" "sint a + sint b < 2 ^ 63" for a b :: Duration
    using that by (simp add: sint_word_ariths signed_take_bit_int_eq_self)
  let ?a = "AcceptBlockTTL (FSM cfg)" and ?b = "AcceptProposalEndorsementTTL (FSM cfg)"
    and ?c = "AcceptLockEndorsementTTL (FSM cfg)" and ?d = "CommitTTL (FSM cfg)"
  have ab: "sint (?a + ?b) = sint ?a + sint ?b"
    using assms by (intro add) simp_all
  have abc: "sint (?a + ?b + ?c) = sint ?a + sint ?b + sint ?c"
    using assms ab add[of "?a + ?b" ?c] by simp
  have "sint (?a + ?b + ?c + ?d) = sint ?a + sint ?b + sint ?c + sint ?d"
    using assms abc add[of "?a + ?b + ?c" ?d] by simp
  thus ?thesis by (simp add: ttl_sum_def)
qed

lemma t_NewRound_chain0: "t_NewRound t_chain0 0 0 = Inr t_round0"
  by (simp add: t_NewRound_def t_chain0_def t_round0_def t_Proposer_def)

text \<open>
  Claim C4, as stated, fails: when the round context cannot be generated, construction
  panics with that failure and never reaches the TTL check, although the TTLs (sum 10)
  exceed the block interval (5).
\<close>

theorem newRollDPoSCtx_ttl_iff_counterexample:
  "\<not> (newRollDPoSCtx t_deps t_cfg True 5 (t_chain0\<lparr>tc_delegates := []\<rparr>) 5 ''d0'' ''d0'' 0
         = Panic ttl_panic
       \<longleftrightarrow> (5 :: Duration) <s ttl_sum t_cfg)"
  by (simp add: newRollDPoSCtx_def t_deps_def t_NewRound_def t_chain0_def ttl_sum_t_cfg
      ttl_panic_neq[symmetric] word_sless_alt)

text \<open>
  Claim C4, amended.  Construction panics with the TTL message if and only if the round
  context was generated and the \<^verbatim>\<open>int64\<close> sum of the four TTLs strictly exceeds the
  block interval.  When the round context was generated and the sum is at most the block
  interval, construction returns the context; when the round context cannot be generated,
  it panics with that failure, whatever the TTLs are.
\<close>

theorem newRollDPoSCtx_ttl_guard:
  "(newRollDPoSCtx D cfg active blockInterval chain actPool encodedAddr priKey now
      = Panic ttl_panic
    \<longleftrightarrow> (\<exists>round. rc_NewRoundWithToleration D chain 0 now = Inr round)
         \<and> blockInterval <s ttl_sum cfg)
   \<and> (\<forall>round. rc_NewRoundWithToleration D chain 0 now = Inr round
         \<and> \<not> blockInterval <s ttl_sum cfg
        \<longrightarrow> newRollDPoSCtx D cfg active blockInterval chain actPool encodedAddr priKey now
            = Return \<lparr>ctx_cfg = cfg, ctx_chain = chain, ctx_actPool = actPool,
                      ctx_encodedAddr = encodedAddr, ctx_priKey = priKey,
                      ctx_round = round, ctx_active = active\<rparr>)
   \<and> (\<forall>err. rc_NewRoundWithToleration D chain 0 now = Inl err
        \<longrightarrow> newRollDPoSCtx D cfg active blockInterval chain actPool encodedAddr priKey now
            = Panic round_panic)"
  by (auto simp: newRollDPoSCtx_def ttl_panic_neq[symmetric] split: sum.splits)

theorem newRollDPoSCtx_ttl_guard_witness:
  "rc_NewRoundWithToleration t_deps t_chain0 0 0 = Inr t_round0
   \<and> (5 :: Duration) <s ttl_sum t_cfg
   \<and> newRollDPoSCtx t_deps t_cfg True 5 t_chain0 5 ''d0'' ''d0'' 0 = Panic ttl_panic
   \<and> \<not> (10 :: Duration) <s ttl_sum t_cfg
   \<and> newRollDPoSCtx t_deps t_cfg True 10 t_chain0 5 ''d0'' ''d0'' 0 = Return t_ctx"
proof -
  have r: "rc_NewRoundWithToleration t_deps t_chain0 0 0 = Inr t_round0"
    by (simp add: t_deps_def t_NewRound_chain0)
  have gt: "(5 :: Duration) <s ttl_sum t_cfg"
    by (simp add: ttl_sum_t_cfg word_sless_alt)
  have le: "\<not> (10 :: Duration) <s ttl_sum t_cfg"
    by (simp add: ttl_sum_t_cfg)
  have "newRollDPoSCtx t_deps t_cfg True 5 t_chain0 5 ''d0'' ''d0'' 0 = Panic ttl_panic"
    using newRollDPoSCtx_ttl_guard [of t_deps t_cfg True 5 t_chain0 5 "''d0''" "''d0''" 0]
      r gt by blast
  moreover have "newRollDPoSCtx t_deps t_cfg True 10 t_chain0 5 ''d0'' ''d0'' 0 = Return t_ctx"
    using newRollDPoSCtx_ttl_guard [of t_deps t_cfg True 10 t_chain0 5 "''d0''" "''d0''" 0]
      r le by (simp add: t_ctx_def)
  ultimately show ?thesis using r gt le by simp
qed

section \<open>The proof of lock of a proposal carried over from an earlier round\<close>

lemma addProofOfLock_admit_all:
  "addProofOfLock D blkHash round es = admit_all_spec D blkHash round es"
  by (induction es arbitrary: round)
     (auto simp: admit_spec_def split: prod.splits option.splits)

lemmas t_eval =
  t_deps_def t_ctx_def t_cfg_def t_chain0_def t_round0_def t_round1_def t_blk_def t_en_def
  t_en1_def t_proposal_def t_vote_msg_def t_Proposer_def t_NewRound_def t_UpdateRound_def
  t_endorsers_def t_EndorsedByMajority_def t_AddBlock_def t_AddVoteEndorsement_def
  t_Endorse_def t_MintNewBlock_def t_CommitBlock_def t_Finalize_def
  newBlockProposal_def NewConsensusVote_def NewEndorsedConsensusMessage_def Time_Add_def
  Let_def

text \<open>
  Claim C1, as stated, fails: the endorser \<open>d1\<close> differs from the block's proposer \<open>d0\<close>,
  but the call is for height 3 and the block has height 2, so the function returns the
  height error before any round context is built.
\<close>

theorem CheckBlockProposer_counterexample:
  "b_ProposerAddress t_deps (bp_block t_proposal) = ''d0''
   \<and> en_EndorserAddress t_deps t_en1 = Inr ''d1''
   \<and> CheckBlockProposer t_deps t_ctx 3 t_proposal t_en1
       = Some (New ''block height %d different from expected %d'')"
  by (simp add: CheckBlockProposer_def t_eval)

text \<open>
  Claim C1, amended.  For every call that passes the four checks before the branch (the
  height is the block's, the endorser is the proposer at the endorsement's time, the block's
  proposer is the proposer at the block's time, the block's signature verifies), in which
  the block's proposer differs from the endorser, and for which a round context at the
  endorsement's time is built (\<open>round\<close>) and admits the block (\<open>round1\<close>): each endorsement
  of the proof of lock is applied as a PROPOSAL vote and, if that fails, as a COMMIT vote.
  If a retry fails, its error is returned.  Otherwise, with \<open>round2\<close> the round context after
  all admissions, the function returns the InsufficientEndorsements error if and only if
  the block hash is not endorsed by a majority under PROPOSAL and COMMIT in \<open>round2\<close>, and
  nil if and only if it is.
\<close>

theorem CheckBlockProposer_proof_of_lock:
  assumes "height = b_Height D (bp_block proposal)"
    and "en_EndorserAddress D en = Inr endorserAddr"
    and "rc_Proposer D (ctx_chain ctx) height (en_Timestamp D en) = endorserAddr"
    and "rc_Proposer D (ctx_chain ctx) height (b_Timestamp D (bp_block proposal))
           = b_ProposerAddress D (bp_block proposal)"
    and "b_VerifySignature D (bp_block proposal)"
    and "b_ProposerAddress D (bp_block proposal) \<noteq> endorserAddr"
    and "rc_NewRound D (ctx_chain ctx) height (en_Timestamp D en) = Inr round"
    and "r_AddBlock D round (bp_block proposal) = (None, round1)"
  shows "(\<forall>err. admit_all_spec D (b_HashBlock D (bp_block proposal)) round1
                  (bp_proofOfLock proposal) = Inl err
            \<longrightarrow> CheckBlockProposer D ctx height proposal en = Some err)
       \<and> (\<forall>round2. admit_all_spec D (b_HashBlock D (bp_block proposal)) round1
                  (bp_proofOfLock proposal) = Inr round2
            \<longrightarrow> (CheckBlockProposer D ctx height proposal en
                   = Some (Wrap ErrInsufficientEndorsements ''failed to verify proof of lock'')
                  \<longleftrightarrow> \<not> r_EndorsedByMajority D round2 (b_HashBlock D (bp_block proposal))
                          [PROPOSAL, COMMIT])
              \<and> (CheckBlockProposer D ctx height proposal en = None
                  \<longleftrightarrow> r_EndorsedByMajority D round2 (b_HashBlock D (bp_block proposal))
                          [PROPOSAL, COMMIT]))"
  using assms by (simp add: CheckBlockProposer_def Let_def addProofOfLock_admit_all)

theorem CheckBlockProposer_proof_of_lock_witness:
  "b_ProposerAddress t_deps (bp_block t_proposal) \<noteq> ''d1''
   \<and> en_EndorserAddress t_deps t_en1 = Inr ''d1''
   \<and> CheckBlockProposer t_deps t_ctx 2 t_proposal t_en1 = None
   \<and> CheckBlockProposer t_deps t_ctx 2 (newBlockProposal t_blk [t_en ''d2'' 2 COMMIT]) t_en1
       = Some (Wrap ErrInsufficientEndorsements ''failed to verify proof of lock'')"
proof -
  let ?r1 = "t_round1\<lparr>tr_blocks := [t_blk]\<rparr>"
  let ?p2 = "newBlockProposal t_blk [t_en ''d2'' 2 COMMIT]"
  have h1: "2 = b_Height t_deps (bp_block t_proposal)"
    and h2: "en_EndorserAddress t_deps t_en1 = Inr ''d1''"
    and h3: "rc_Proposer t_deps (ctx_chain t_ctx) 2 (en_Timestamp t_deps t_en1) = ''d1''"
    and h4: "rc_Proposer t_deps (ctx_chain t_ctx) 2 (b_Timestamp t_deps (bp_block t_proposal))
               = b_ProposerAddress t_deps (bp_block t_proposal)"
    and h5: "b_VerifySignature t_deps (bp_block t_proposal)"
    and h6: "b_ProposerAddress t_deps (bp_block t_proposal) \<noteq> ''d1''"
    and h7: "rc_NewRound t_deps (ctx_chain t_ctx) 2 (en_Timestamp t_deps t_en1) = Inr t_round1"
    and h8: "r_AddBlock t_deps t_round1 (bp_block t_proposal) = (None, ?r1)"
    by (simp_all add: t_eval)
  have g1: "2 = b_Height t_deps (bp_block ?p2)"
    and g4: "rc_Proposer t_deps (ctx_chain t_ctx) 2 (b_Timestamp t_deps (bp_block ?p2))
               = b_ProposerAddress t_deps (bp_block ?p2)"
    and g5: "b_VerifySignature t_deps (bp_block ?p2)"
    and g6: "b_ProposerAddress t_deps (bp_block ?p2) \<noteq> ''d1''"
    and g8: "r_AddBlock t_deps t_round1 (bp_block ?p2) = (None, ?r1)"
    by (simp_all add: t_eval)
  have a1: "\<exists>r2. admit_all_spec t_deps (b_HashBlock t_deps (bp_block t_proposal)) ?r1
                   (bp_proofOfLock t_proposal) = Inr r2
                \<and> r_EndorsedByMajority t_deps r2 (b_HashBlock t_deps (bp_block t_proposal))
                     [PROPOSAL, COMMIT]"
    by (simp add: admit_spec_def t_eval)
  have a2: "\<exists>r2. admit_all_spec t_deps (b_HashBlock t_deps (bp_block ?p2)) ?r1
                   (bp_proofOfLock ?p2) = Inr r2
                \<and> \<not> r_EndorsedByMajority t_deps r2 (b_HashBlock t_deps (bp_block ?p2))
                     [PROPOSAL, COMMIT]"
    by (simp add: admit_spec_def t_eval)
  have "CheckBlockProposer t_deps t_ctx 2 t_proposal t_en1 = None"
    using CheckBlockProposer_proof_of_lock [OF h1 h2 h3 h4 h5 h6 h7 h8] a1 by blast
  moreover have "CheckBlockProposer t_deps t_ctx 2 ?p2 t_en1
       = Some (Wrap ErrInsufficientEndorsements ''failed to verify proof of lock'')"
    using CheckBlockProposer_proof_of_lock [OF g1 h2 h3 g4 g5 g6 h7 g8] a2 by blast
  ultimately show ?thesis using h2 h6 by simp
qed

section \<open>Commit\<close>

lemma verifyVote_actPool: "ctx_actPool (snd (verifyVote D ctx msg topics)) = ctx_actPool ctx"
  by (simp add: verifyVote_def Let_def split: Msg.splits Document.splits prod.splits option.splits)

lemma verifyVote_chain: "ctx_chain (snd (verifyVote D ctx msg topics)) = ctx_chain ctx"
  by (simp add: verifyVote_def Let_def split: Msg.splits Document.splits prod.splits option.splits)


lemma verifyVote_vote:
  assumes "msg = MsgECM m" and "ecm_message m = DocVote v"
    and "r_AddVoteEndorsement D (ctx_round ctx) v (ecm_endorsement m) = (None, round')"
  shows "verifyVote D ctx msg topics =
     ((vote_blockHash v,
       if r_EndorsedByMajority D round' (vote_blockHash v) topics then None
       else Some ErrInsufficientEndorsements), ctx\<lparr>ctx_round := round'\<rparr>)"
  using assms by (simp add: verifyVote_def Let_def)

lemmas t_eval_c = t_ctx_c_def t_round_c_def




text \<open>
  Claim C3.  For every invocation of \<open>Commit\<close>: the action pool's \<open>Reset\<close> is called if and
  only if the chain's \<open>CommitBlock\<close> was called and returned success; the action pool afterwards
  is the reset pool in that case and the untouched pool in every other; \<open>Reset\<close> is called at
  most once; and whenever \<open>Commit\<close> returns false, or \<open>CommitBlock\<close> returned an error
  (InvalidTipHeight included), the pool is untouched.
\<close>

theorem Commit_actPool_reset_iff_committed:
  "(EvActPoolReset \<in> set (snd (snd (Commit D ctx msg)))
      \<longleftrightarrow> (\<exists>b. EvCommitBlock b None \<in> set (snd (snd (Commit D ctx msg)))))
   \<and> ctx_actPool (fst (snd (Commit D ctx msg))) =
        (if \<exists>b. EvCommitBlock b None \<in> set (snd (snd (Commit D ctx msg)))
         then ap_Reset D (ctx_actPool ctx) else ctx_actPool ctx)
   \<and> length (filter (\<lambda>ev. ev = EvActPoolReset) (snd (snd (Commit D ctx msg)))) \<le> 1
   \<and> (\<forall>err. fst (Commit D ctx msg) = Return (False, err)
         \<longrightarrow> EvActPoolReset \<notin> set (snd (snd (Commit D ctx msg)))
           \<and> ctx_actPool (fst (snd (Commit D ctx msg))) = ctx_actPool ctx)
   \<and> (\<forall>b e. EvCommitBlock b (Some e) \<in> set (snd (snd (Commit D ctx msg)))
         \<longrightarrow> EvActPoolReset \<notin> set (snd (snd (Commit D ctx msg)))
           \<and> ctx_actPool (fst (snd (Commit D ctx msg))) = ctx_actPool ctx)"
proof -
  obtain blkHash err ctx1 where vv: "verifyVote D ctx msg [COMMIT] = ((blkHash, err), ctx1)"
    by (metis surj_pair)
  have pool: "ctx_actPool ctx1 = ctx_actPool ctx"
    using verifyVote_actPool[of D ctx msg "[COMMIT]"] vv by simp
  show ?thesis
    unfolding Commit_def vv
    by (auto simp: Let_def pool split: option.splits prod.splits)
qed

theorem Commit_actPool_reset_iff_committed_witness:
  "EvCommitBlock (t_blk\<lparr>tb_commits := [''d1'', ''d2'']\<rparr>) None
      \<in> set (snd (snd (Commit t_deps t_ctx_c (t_vote_msg ''d2'' 8 COMMIT))))
   \<and> EvActPoolReset \<in> set (snd (snd (Commit t_deps t_ctx_c (t_vote_msg ''d2'' 8 COMMIT))))
   \<and> ctx_actPool (fst (snd (Commit t_deps t_ctx_c (t_vote_msg ''d2'' 8 COMMIT)))) = 0
   \<and> fst (Commit t_deps (t_ctx_c\<lparr>ctx_chain := t_chain0\<lparr>tc_tip := 5\<rparr>\<rparr>)
            (t_vote_msg ''d2'' 8 COMMIT)) = Return (True, None)
   \<and> EvCommitBlock (t_blk\<lparr>tb_commits := [''d1'', ''d2'']\<rparr>)
        (Some (Wrap ErrInvalidTipHeight ''wrong height''))
      \<in> set (snd (snd (Commit t_deps (t_ctx_c\<lparr>ctx_chain := t_chain0\<lparr>tc_tip := 5\<rparr>\<rparr>)
                          (t_vote_msg ''d2'' 8 COMMIT))))
   \<and> ctx_actPool (fst (snd (Commit t_deps (t_ctx_c\<lparr>ctx_chain := t_chain0\<lparr>tc_tip := 5\<rparr>\<rparr>)
                              (t_vote_msg ''d2'' 8 COMMIT)))) = 5"
proof -
  let ?c5 = "t_ctx_c\<lparr>ctx_chain := t_chain0\<lparr>tc_tip := 5\<rparr>\<rparr>"
  let ?msg = "t_vote_msg ''d2'' 8 COMMIT"
  let ?fin = "t_blk\<lparr>tb_commits := [''d1'', ''d2'']\<rparr>"
  have ok: "EvCommitBlock ?fin None \<in> set (snd (snd (Commit t_deps t_ctx_c ?msg)))"
    by (simp add: Commit_def verifyVote_def Cause_def t_eval t_eval_c)
  have tip: "EvCommitBlock ?fin (Some (Wrap ErrInvalidTipHeight ''wrong height''))
      \<in> set (snd (snd (Commit t_deps ?c5 ?msg)))"
    and ret: "fst (Commit t_deps ?c5 ?msg) = Return (True, None)"
    by (simp_all add: Commit_def verifyVote_def Cause_def t_eval t_eval_c)
  have p0: "ap_Reset t_deps (ctx_actPool t_ctx_c) = 0" and p5: "ctx_actPool ?c5 = 5"
    by (simp_all add: t_eval t_eval_c)
  have "EvActPoolReset \<in> set (snd (snd (Commit t_deps t_ctx_c ?msg)))
      \<and> ctx_actPool (fst (snd (Commit t_deps t_ctx_c ?msg))) = 0"
    using Commit_actPool_reset_iff_committed [of t_deps t_ctx_c ?msg] ok p0 by auto
  moreover have "ctx_actPool (fst (snd (Commit t_deps ?c5 ?msg))) = 5"
    using Commit_actPool_reset_iff_committed [of t_deps ?c5 ?msg] tip p5 by auto
  ultimately show ?thesis using ok tip ret by simp
qed

section \<open>Proposal\<close>

lemmas t_eval_l = t_round_l_def t_round_p_def

text \<open>
  Claim C5, as stated, fails: the node \<open>d0\<close> is the proposer of the round and the round is
  not locked, but the chain cannot mint a block; \<open>Proposal\<close> returns the minting error and,
  instead of an endorsed proposal, an interface holding a nil pointer.
\<close>

theorem Proposal_counterexample:
  "r_Proposer t_deps (ctx_round (t_ctx\<lparr>ctx_chain := t_chain0\<lparr>tc_fail_mint := True\<rparr>\<rparr>))
     = ctx_encodedAddr (t_ctx\<lparr>ctx_chain := t_chain0\<lparr>tc_fail_mint := True\<rparr>\<rparr>)
   \<and> \<not> r_IsLocked t_deps (ctx_round (t_ctx\<lparr>ctx_chain := t_chain0\<lparr>tc_fail_mint := True\<rparr>\<rparr>))
   \<and> Proposal t_deps (t_ctx\<lparr>ctx_chain := t_chain0\<lparr>tc_fail_mint := True\<rparr>\<rparr>)
       = Return (IfaceNilPtr, Some (New ''cannot mint''))"
  by (simp add: Proposal_def mintNewBlock_def ret_iface_def to_iface_def t_eval)

text \<open>
  Claim C5, amended.  For every state of the context: \<open>Proposal\<close> returns (nil, nil) whenever
  the node's address differs from the round's proposer.  When the node is the proposer and
  the round is locked on a block it holds, \<open>Proposal\<close> returns the re-proposal of that block
  with the round's proof of lock, endorsed at the round's start time, provided signing
  succeeds.  When the node is the proposer and the round is not locked, a block is minted
  from the pending actions of the action pool at the round's start time and \<open>Proposal\<close>
  returns the proposal of it (with the round's proof of lock if the round is unlocked, with
  none otherwise), endorsed, provided minting and signing succeed.  When minting or signing
  fails, \<open>Proposal\<close> returns that error, and its first result is a non-nil interface that
  holds a nil message pointer (not the nil interface of the first case).
\<close>

theorem Proposal_result:
  "(r_Proposer D (ctx_round ctx) \<noteq> ctx_encodedAddr ctx
      \<longrightarrow> Proposal D ctx = Return (IfaceNil, None))
   \<and> (\<forall>blk. r_Proposer D (ctx_round ctx) = ctx_encodedAddr ctx
         \<and> r_IsLocked D (ctx_round ctx)
         \<and> r_Block D (ctx_round ctx) (r_HashOfBlockInLock D (ctx_round ctx)) = Some blk
      \<longrightarrow> (case en_Endorse D (ctx_priKey ctx)
                   (DocProposal (newBlockProposal blk (r_ProofOfLock D (ctx_round ctx))))
                   (r_StartTime D (ctx_round ctx)) of
             Inr en \<Rightarrow>
               Proposal D ctx
                 = Return (IfacePtr (NewEndorsedConsensusMessage (b_Height D blk)
                                   (DocProposal
                                      (newBlockProposal blk (r_ProofOfLock D (ctx_round ctx))))
                                   en), None)
           | Inl err \<Rightarrow> Proposal D ctx = Return (IfaceNilPtr, Some err)))
   \<and> (r_Proposer D (ctx_round ctx) = ctx_encodedAddr ctx \<and> \<not> r_IsLocked D (ctx_round ctx)
      \<longrightarrow> (case ch_MintNewBlock D (ctx_chain ctx) (ap_PendingActionMap D (ctx_actPool ctx))
                   (r_StartTime D (ctx_round ctx)) of
             Inl err \<Rightarrow> Proposal D ctx = Return (IfaceNilPtr, Some err)
           | Inr blk \<Rightarrow>
               (case en_Endorse D (ctx_priKey ctx)
                       (DocProposal
                          (newBlockProposal blk
                             (if r_IsUnlocked D (ctx_round ctx)
                              then r_ProofOfLock D (ctx_round ctx) else [])))
                       (r_StartTime D (ctx_round ctx)) of
                  Inr en \<Rightarrow>
                    Proposal D ctx
                      = Return (IfacePtr (NewEndorsedConsensusMessage (b_Height D blk)
                                        (DocProposal
                                           (newBlockProposal blk
                                              (if r_IsUnlocked D (ctx_round ctx)
                                               then r_ProofOfLock D (ctx_round ctx) else [])))
                                        en), None)
                | Inl err \<Rightarrow> Proposal D ctx = Return (IfaceNilPtr, Some err))))"
  by (auto simp: Proposal_def mintNewBlock_def endorseBlockProposal_def ret_iface_def
      to_iface_def newBlockProposal_def Let_def split: sum.splits)

theorem Proposal_result_witness:
  "r_Proposer t_deps (ctx_round (t_ctx\<lparr>ctx_encodedAddr := ''d1''\<rparr>))
     \<noteq> ctx_encodedAddr (t_ctx\<lparr>ctx_encodedAddr := ''d1''\<rparr>)
   \<and> Proposal t_deps (t_ctx\<lparr>ctx_encodedAddr := ''d1''\<rparr>) = Return (IfaceNil, None)
   \<and> r_IsLocked t_deps (ctx_round (t_ctx\<lparr>ctx_round := t_round_l\<rparr>))
   \<and> Proposal t_deps (t_ctx\<lparr>ctx_round := t_round_l\<rparr>)
       = Return (IfacePtr (NewEndorsedConsensusMessage 2
                   (DocProposal (newBlockProposal t_blk
                      [t_en ''d1'' 4 PROPOSAL, t_en ''d2'' 4 PROPOSAL]))
                   \<lparr>te_endorser = ''d0'', te_time = 0, te_doc = SignedProposal [5, 2]\<rparr>), None)
   \<and> \<not> r_IsLocked t_deps (ctx_round t_ctx)
   \<and> Proposal t_deps t_ctx
       = Return (IfacePtr (NewEndorsedConsensusMessage 2
                   (DocProposal (newBlockProposal t_blk []))
                   \<lparr>te_endorser = ''d0'', te_time = 0, te_doc = SignedProposal [5, 2]\<rparr>), None)"
proof -
  let ?c1 = "t_ctx\<lparr>ctx_encodedAddr := ''d1''\<rparr>"
  let ?cl = "t_ctx\<lparr>ctx_round := t_round_l\<rparr>"
  let ?en = "\<lparr>te_endorser = ''d0'', te_time = 0, te_doc = SignedProposal [5, 2]\<rparr>"
  have other: "r_Proposer t_deps (ctx_round ?c1) \<noteq> ctx_encodedAddr ?c1"
    by (simp add: t_eval)
  have pl: "r_Proposer t_deps (ctx_round ?cl) = ctx_encodedAddr ?cl"
    and locked: "r_IsLocked t_deps (ctx_round ?cl)"
    and blk: "r_Block t_deps (ctx_round ?cl) (r_HashOfBlockInLock t_deps (ctx_round ?cl))
                = Some t_blk"
    and signl: "en_Endorse t_deps (ctx_priKey ?cl)
                  (DocProposal (newBlockProposal t_blk (r_ProofOfLock t_deps (ctx_round ?cl))))
                  (r_StartTime t_deps (ctx_round ?cl)) = Inr ?en"
    and pol: "r_ProofOfLock t_deps (ctx_round ?cl)
                = [t_en ''d1'' 4 PROPOSAL, t_en ''d2'' 4 PROPOSAL]"
    and hl: "b_Height t_deps t_blk = 2"
    by (simp_all add: t_eval t_eval_l)
  have p0: "r_Proposer t_deps (ctx_round t_ctx) = ctx_encodedAddr t_ctx"
    and unlocked: "\<not> r_IsLocked t_deps (ctx_round t_ctx)"
    and mint: "ch_MintNewBlock t_deps (ctx_chain t_ctx) (ap_PendingActionMap t_deps (ctx_actPool t_ctx))
                 (r_StartTime t_deps (ctx_round t_ctx)) = Inr t_blk"
    and sign0: "en_Endorse t_deps (ctx_priKey t_ctx)
                  (DocProposal (newBlockProposal t_blk
                     (if r_IsUnlocked t_deps (ctx_round t_ctx)
                      then r_ProofOfLock t_deps (ctx_round t_ctx) else [])))
                  (r_StartTime t_deps (ctx_round t_ctx)) = Inr ?en"
    and pou: "(if r_IsUnlocked t_deps (ctx_round t_ctx)
               then r_ProofOfLock t_deps (ctx_round t_ctx) else []) = []"
    by (simp_all add: t_eval)
  have "Proposal t_deps ?c1 = Return (IfaceNil, None)"
    using Proposal_result [of t_deps ?c1] other by blast
  moreover have "Proposal t_deps ?cl
       = Return (IfacePtr (NewEndorsedConsensusMessage 2
                   (DocProposal (newBlockProposal t_blk
                      [t_en ''d1'' 4 PROPOSAL, t_en ''d2'' 4 PROPOSAL])) ?en), None)"
    using Proposal_result [of t_deps ?cl, THEN conjunct2, THEN conjunct1, rule_format, of t_blk]
      pl locked blk signl pol hl by simp
  moreover have "Proposal t_deps t_ctx
       = Return (IfacePtr (NewEndorsedConsensusMessage 2
                   (DocProposal (newBlockProposal t_blk [])) ?en), None)"
    using Proposal_result [of t_deps t_ctx, THEN conjunct2, THEN conjunct2, rule_format]
      p0 unlocked mint sign0 pou hl by simp
  ultimately show ?thesis using other locked unlocked by simp
qed

section \<open>Endorsements\<close>

text \<open>
  Claim C6, as stated, fails: the PROPOSAL vote of \<open>d2\<close> is admitted and completes the quorum
  for the non-empty hash, but the node cannot sign (its key is empty), and
  \<open>NewLockEndorsement\<close> returns the signing error and, instead of a LOCK endorsement, an
  interface holding a nil pointer.
\<close>

theorem NewLockEndorsement_counterexample:
  "NewLockEndorsement t_deps (t_ctx\<lparr>ctx_round := t_round_p, ctx_priKey := []\<rparr>)
     (t_vote_msg ''d2'' 5 PROPOSAL)
   = ((IfaceNilPtr, Some (New ''cannot sign'')),
      t_ctx\<lparr>ctx_round := t_round_l\<lparr>tr_votes :=
                 [(NewConsensusVote [5, 2] PROPOSAL, t_en ''d1'' 4 PROPOSAL),
                  (NewConsensusVote [5, 2] PROPOSAL, t_en ''d2'' 5 PROPOSAL)]\<rparr>,
            ctx_priKey := []\<rparr>)
   \<and> r_EndorsedByMajority t_deps
        (t_round_l\<lparr>tr_votes := [(NewConsensusVote [5, 2] PROPOSAL, t_en ''d1'' 4 PROPOSAL),
                                 (NewConsensusVote [5, 2] PROPOSAL, t_en ''d2'' 5 PROPOSAL)]\<rparr>)
        [5, 2] [PROPOSAL, COMMIT]"
  by (simp add: NewLockEndorsement_def verifyVote_def newEndorsement_def ret_iface_def
      to_iface_def Cause_def t_eval t_eval_l)

text \<open>
  Claim C6, amended.  For every consensus-vote message the round context admits,
  \<open>NewLockEndorsement\<close> leaves the vote recorded in the round context (\<open>round'\<close>) and: if the
  vote's hash has no majority under PROPOSAL and COMMIT, it returns (nil, nil); if it has
  and the hash is non-empty, it signs a LOCK vote for that hash with the timestamp
  \<open>start.Add(AcceptBlockTTL + AcceptProposalEndorsementTTL)\<close> and returns the endorsed LOCK
  vote at the round's height, or, if signing fails, the signing error, with a non-nil
  interface that holds a nil message pointer as first result (the (nil, nil) of the first
  case is the nil interface).
\<close>

theorem NewLockEndorsement_result:
  assumes "msg = MsgECM m" and "ecm_message m = DocVote v"
    and "r_AddVoteEndorsement D (ctx_round ctx) v (ecm_endorsement m) = (None, round')"
  shows
   "snd (NewLockEndorsement D ctx msg) = ctx\<lparr>ctx_round := round'\<rparr>
    \<and> (\<not> r_EndorsedByMajority D round' (vote_blockHash v) [PROPOSAL, COMMIT]
        \<longrightarrow> fst (NewLockEndorsement D ctx msg) = (IfaceNil, None))
    \<and> (r_EndorsedByMajority D round' (vote_blockHash v) [PROPOSAL, COMMIT]
         \<and> vote_blockHash v \<noteq> []
        \<longrightarrow> (case en_Endorse D (ctx_priKey ctx)
                     (DocVote (NewConsensusVote (vote_blockHash v) LOCK))
                     (Time_Add (r_StartTime D round')
                        (AcceptBlockTTL (FSM (ctx_cfg ctx))
                           + AcceptProposalEndorsementTTL (FSM (ctx_cfg ctx)))) of
               Inr en \<Rightarrow>
                 fst (NewLockEndorsement D ctx msg)
                   = (IfacePtr (NewEndorsedConsensusMessage (r_Height D round')
                              (DocVote (NewConsensusVote (vote_blockHash v) LOCK)) en), None)
             | Inl err \<Rightarrow> fst (NewLockEndorsement D ctx msg) = (IfaceNilPtr, Some err)))"
  unfolding NewLockEndorsement_def verifyVote_vote [OF assms]
  by (auto simp: Cause_def newEndorsement_def ret_iface_def to_iface_def Let_def split: sum.splits)

theorem NewLockEndorsement_result_witness:
  "fst (NewLockEndorsement t_deps (t_ctx\<lparr>ctx_round := t_round_p\<rparr>) (t_vote_msg ''d2'' 5 PROPOSAL))
     = (IfacePtr (NewEndorsedConsensusMessage 2 (DocVote (NewConsensusVote [5, 2] LOCK))
                \<lparr>te_endorser = ''d0'', te_time = 6, te_doc = SignedVote [5, 2] LOCK\<rparr>), None)
   \<and> fst (NewLockEndorsement t_deps t_ctx (t_vote_msg ''d2'' 5 PROPOSAL)) = (IfaceNil, None)"
proof -
  let ?v = "NewConsensusVote [5, 2] PROPOSAL"
  let ?m = "NewEndorsedConsensusMessage 2 (DocVote ?v) (t_en ''d2'' 5 PROPOSAL)
              :: (t_block, t_endorsement) EndorsedConsensusMessage"
  let ?cp = "t_ctx\<lparr>ctx_round := t_round_p\<rparr>"
  let ?en = "\<lparr>te_endorser = ''d0'', te_time = 6, te_doc = SignedVote [5, 2] LOCK\<rparr>"
  define rp where "rp = snd (t_AddVoteEndorsement t_round_p ?v (t_en ''d2'' 5 PROPOSAL))"
  define r0 where "r0 = snd (t_AddVoteEndorsement t_round0 ?v (t_en ''d2'' 5 PROPOSAL))"
  have m: "t_vote_msg ''d2'' 5 PROPOSAL = MsgECM ?m"
    by (simp add: t_vote_msg_def)
  have v: "ecm_message ?m = DocVote ?v"
    by (simp add: NewEndorsedConsensusMessage_def)
  have addp: "r_AddVoteEndorsement t_deps (ctx_round ?cp) ?v (ecm_endorsement ?m) = (None, rp)"
    and add0: "r_AddVoteEndorsement t_deps (ctx_round t_ctx) ?v (ecm_endorsement ?m) = (None, r0)"
    unfolding rp_def r0_def by (simp_all add: t_eval t_eval_l)
  have maj: "r_EndorsedByMajority t_deps rp (vote_blockHash ?v) [PROPOSAL, COMMIT]"
    and nomaj: "\<not> r_EndorsedByMajority t_deps r0 (vote_blockHash ?v) [PROPOSAL, COMMIT]"
    and ne: "vote_blockHash ?v \<noteq> []"
    and hv: "vote_blockHash ?v = [5, 2]"
    and height: "r_Height t_deps rp = 2"
    and sign: "en_Endorse t_deps (ctx_priKey ?cp)
                 (DocVote (NewConsensusVote (vote_blockHash ?v) LOCK))
                 (Time_Add (r_StartTime t_deps rp)
                    (AcceptBlockTTL (FSM (ctx_cfg ?cp))
                       + AcceptProposalEndorsementTTL (FSM (ctx_cfg ?cp)))) = Inr ?en"
    unfolding rp_def r0_def by (simp_all add: t_eval t_eval_l)
  have "fst (NewLockEndorsement t_deps ?cp (t_vote_msg ''d2'' 5 PROPOSAL))
      = (IfacePtr (NewEndorsedConsensusMessage 2 (DocVote (NewConsensusVote [5, 2] LOCK)) ?en), None)"
    using NewLockEndorsement_result [OF m v addp, THEN conjunct2, THEN conjunct2] maj ne
      sign height hv by simp
  moreover have "fst (NewLockEndorsement t_deps t_ctx (t_vote_msg ''d2'' 5 PROPOSAL)) = (IfaceNil, None)"
    using NewLockEndorsement_result [OF m v add0] nomaj by blast
  ultimately show ?thesis by simp
qed

text \<open>
  Claim C7, as stated, fails: the round is not locked, yet \<open>NewProposalEndorsement\<close> with a
  nil message returns a message, the endorsed PROPOSAL vote for the empty block hash.
\<close>

theorem NewProposalEndorsement_nil_counterexample:
  "\<not> r_IsLocked t_deps (ctx_round t_ctx)
   \<and> NewProposalEndorsement t_deps t_ctx MsgNil
       = ((IfacePtr (NewEndorsedConsensusMessage 2 (DocVote (NewConsensusVote [] PROPOSAL))
                   \<lparr>te_endorser = ''d0'', te_time = 4, te_doc = SignedVote [] PROPOSAL\<rparr>),
           None), t_ctx)"
  by (simp add: NewProposalEndorsement_def newEndorsement_def ret_iface_def to_iface_def t_eval)

text \<open>
  Claim C7, amended.  For every context, \<open>NewProposalEndorsement\<close> with a nil message leaves
  the context as it is and signs a PROPOSAL vote with the timestamp
  \<open>start.Add(AcceptBlockTTL)\<close>: for the locked block's hash when the round is locked, for
  the empty hash when it is not.  It returns the endorsed vote at the round's height, or, if
  signing fails, the signing error (the first result is then an interface holding a nil
  pointer).  A nil message therefore produces a message for a locked and for an unlocked
  round alike.
\<close>

theorem NewProposalEndorsement_nil:
  "snd (NewProposalEndorsement D ctx MsgNil) = ctx
   \<and> (case en_Endorse D (ctx_priKey ctx)
             (DocVote (NewConsensusVote
                (if r_IsLocked D (ctx_round ctx) then r_HashOfBlockInLock D (ctx_round ctx)
                 else []) PROPOSAL))
             (Time_Add (r_StartTime D (ctx_round ctx)) (AcceptBlockTTL (FSM (ctx_cfg ctx)))) of
         Inr en \<Rightarrow>
           fst (NewProposalEndorsement D ctx MsgNil)
             = (IfacePtr (NewEndorsedConsensusMessage (r_Height D (ctx_round ctx))
                        (DocVote (NewConsensusVote
                           (if r_IsLocked D (ctx_round ctx)
                            then r_HashOfBlockInLock D (ctx_round ctx) else []) PROPOSAL))
                        en), None)
       | Inl err \<Rightarrow> fst (NewProposalEndorsement D ctx MsgNil) = (IfaceNilPtr, Some err))"
  by (simp add: NewProposalEndorsement_def newEndorsement_def ret_iface_def to_iface_def
      Let_def split: sum.splits)

theorem NewProposalEndorsement_nil_witness:
  "r_IsLocked t_deps (ctx_round (t_ctx\<lparr>ctx_round := t_round_l\<rparr>))
   \<and> fst (NewProposalEndorsement t_deps (t_ctx\<lparr>ctx_round := t_round_l\<rparr>) MsgNil)
       = (IfacePtr (NewEndorsedConsensusMessage 2 (DocVote (NewConsensusVote [5, 2] PROPOSAL))
                  \<lparr>te_endorser = ''d0'', te_time = 4, te_doc = SignedVote [5, 2] PROPOSAL\<rparr>),
          None)
   \<and> fst (NewProposalEndorsement t_deps (t_ctx\<lparr>ctx_priKey := []\<rparr>) MsgNil)
       = (IfaceNilPtr, Some (New ''cannot sign''))"
proof -
  let ?cl = "t_ctx\<lparr>ctx_round := t_round_l\<rparr>"
  let ?ck = "t_ctx\<lparr>ctx_priKey := []\<rparr>"
  let ?en = "\<lparr>te_endorser = ''d0'', te_time = 4, te_doc = SignedVote [5, 2] PROPOSAL\<rparr>"
  have locked: "r_IsLocked t_deps (ctx_round ?cl)"
    and hash: "r_HashOfBlockInLock t_deps (ctx_round ?cl) = [5, 2]"
    and height: "r_Height t_deps (ctx_round ?cl) = 2"
    and sign: "en_Endorse t_deps (ctx_priKey ?cl) (DocVote (NewConsensusVote [5, 2] PROPOSAL))
                 (Time_Add (r_StartTime t_deps (ctx_round ?cl)) (AcceptBlockTTL (FSM (ctx_cfg ?cl))))
               = Inr ?en"
    by (simp_all add: t_eval t_eval_l)
  have nosign: "en_Endorse t_deps (ctx_priKey ?ck)
                  (DocVote (NewConsensusVote
                     (if r_IsLocked t_deps (ctx_round ?ck)
                      then r_HashOfBlockInLock t_deps (ctx_round ?ck) else []) PROPOSAL))
                  (Time_Add (r_StartTime t_deps (ctx_round ?ck)) (AcceptBlockTTL (FSM (ctx_cfg ?ck))))
                = Inl (New ''cannot sign'')"
    by (simp add: t_eval)
  have "fst (NewProposalEndorsement t_deps ?cl MsgNil)
      = (IfacePtr (NewEndorsedConsensusMessage 2 (DocVote (NewConsensusVote [5, 2] PROPOSAL)) ?en),
         None)"
    using NewProposalEndorsement_nil [of t_deps ?cl] locked hash height sign by simp
  moreover have "fst (NewProposalEndorsement t_deps ?ck MsgNil) = (IfaceNilPtr, Some (New ''cannot sign''))"
    using NewProposalEndorsement_nil [of t_deps ?ck] nosign by simp
  ultimately show ?thesis using locked by simp
qed

section \<open>A deactivated node\<close>












end
